theory Spec2Isabelle
  imports Main "HOL-Library.Word"
begin

section \<open>Go values used by \<open>internal/netxlite/tls.go\<close>\<close>

text \<open>
  \<open>uint16\<close> is a 16-bit word. A Go slice or map is \<open>None\<close> when nil and \<open>Some xs\<close>
  otherwise, because \<open>reflect.Value.IsZero\<close> tells a nil slice from an empty one.
  Function values, interface values and pointers to objects whose contents the code
  never reads are \<open>None\<close> (nil) or \<open>Some id\<close>.
\<close>

type_synonym uint16 = "16 word"
type_synonym byte = "8 word"
type_synonym 'a slice = "'a list option"
type_synonym ref = "nat option"

definition len :: "'a slice \<Rightarrow> nat" where
  "len s = (case s of None \<Rightarrow> 0 | Some xs \<Rightarrow> length xs)"

text \<open>\<open>fmt.Sprintf("%d", n)\<close> for an unsigned value: its decimal digits.\<close>

fun itoa :: "nat \<Rightarrow> string" where
  "itoa n =
     (if n < 10 then [''0123456789'' ! n]
      else itoa (n div 10) @ [''0123456789'' ! (n mod 10)])"

declare itoa.simps [simp del]

text \<open>Reading a decimal numeral, to say what \<open>itoa\<close> writes.\<close>

definition atoi :: "string \<Rightarrow> nat" where
  "atoi s = foldl (\<lambda>a ch. 10 * a + (of_char ch - 48)) 0 s"

text \<open>
  Errors. \<open>fmt.Errorf("%w: field %s is nonzero", ErrIncompatibleStdlibConfig, name)\<close>
  is \<open>Errorf_w\<close>: it keeps the wrapped error and the rest of the message.
  \<open>AddrError why addr\<close> is the \<open>*net.AddrError\<close> of \<open>net.SplitHostPort\<close>.
  \<open>OtherError\<close> stands for the errors of collaborators (the network, the TLS engine),
  \<open>ErrWrapper\<close> for the classified error built by \<open>MaybeNewErrWrapper\<close>.
\<close>

datatype error =
    ErrIncompatibleStdlibConfig
  | ErrInvalidTLSVersion
  | Errorf_w error string
  | AddrError string string
  | OtherError string
  | ErrWrapper string string error

fun errors_Is :: "error \<Rightarrow> error \<Rightarrow> bool" where
  "errors_Is (Errorf_w e msg) target =
     (Errorf_w e msg = target \<or> errors_Is e target)"
| "errors_Is (ErrWrapper failure operation e) target =
     (ErrWrapper failure operation e = target \<or> errors_Is e target)"
| "errors_Is e target = (e = target)"

text \<open>A call either returns or panics; a fallible call returns an error or a value.\<close>

datatype 'a outcome = Returns 'a | Panics string

text \<open>What the Go runtime says when a nil pointer is read or written through.\<close>

definition nilDereference :: string where
  "nilDereference = ''runtime error: invalid memory address or nil pointer dereference''"

section \<open>Version and cipher suite names (lines 21-101)\<close>

text \<open>The constants are those of \<open>crypto/tls\<close>.\<close>

definition VersionTLS10 :: uint16 where "VersionTLS10 = 0x0301"
definition VersionTLS11 :: uint16 where "VersionTLS11 = 0x0302"
definition VersionTLS12 :: uint16 where "VersionTLS12 = 0x0303"
definition VersionTLS13 :: uint16 where "VersionTLS13 = 0x0304"

definition tlsVersionString :: "(uint16 \<times> string) list" where
  "tlsVersionString =
    [(VersionTLS10, ''TLSv1''),
     (VersionTLS11, ''TLSv1.1''),
     (VersionTLS12, ''TLSv1.2''),
     (VersionTLS13, ''TLSv1.3''),
     (0, '''')]"

definition tlsCipherSuiteString :: "(uint16 \<times> string) list" where
  "tlsCipherSuiteString =
    [(0x0005, ''TLS_RSA_WITH_RC4_128_SHA''),
     (0x000a, ''TLS_RSA_WITH_3DES_EDE_CBC_SHA''),
     (0x002f, ''TLS_RSA_WITH_AES_128_CBC_SHA''),
     (0x0035, ''TLS_RSA_WITH_AES_256_CBC_SHA''),
     (0x003c, ''TLS_RSA_WITH_AES_128_CBC_SHA256''),
     (0x009c, ''TLS_RSA_WITH_AES_128_GCM_SHA256''),
     (0x009d, ''TLS_RSA_WITH_AES_256_GCM_SHA384''),
     (0xc007, ''TLS_ECDHE_ECDSA_WITH_RC4_128_SHA''),
     (0xc009, ''TLS_ECDHE_ECDSA_WITH_AES_128_CBC_SHA''),
     (0xc00a, ''TLS_ECDHE_ECDSA_WITH_AES_256_CBC_SHA''),
     (0xc011, ''TLS_ECDHE_RSA_WITH_RC4_128_SHA''),
     (0xc012, ''TLS_ECDHE_RSA_WITH_3DES_EDE_CBC_SHA''),
     (0xc013, ''TLS_ECDHE_RSA_WITH_AES_128_CBC_SHA''),
     (0xc014, ''TLS_ECDHE_RSA_WITH_AES_256_CBC_SHA''),
     (0xc023, ''TLS_ECDHE_ECDSA_WITH_AES_128_CBC_SHA256''),
     (0xc027, ''TLS_ECDHE_RSA_WITH_AES_128_CBC_SHA256''),
     (0xc02f, ''TLS_ECDHE_RSA_WITH_AES_128_GCM_SHA256''),
     (0xc02b, ''TLS_ECDHE_ECDSA_WITH_AES_128_GCM_SHA256''),
     (0xc030, ''TLS_ECDHE_RSA_WITH_AES_256_GCM_SHA384''),
     (0xc02c, ''TLS_ECDHE_ECDSA_WITH_AES_256_GCM_SHA384''),
     (0xcca8, ''TLS_ECDHE_RSA_WITH_CHACHA20_POLY1305''),
     (0xcca9, ''TLS_ECDHE_ECDSA_WITH_CHACHA20_POLY1305''),
     (0x1301, ''TLS_AES_128_GCM_SHA256''),
     (0x1302, ''TLS_AES_256_GCM_SHA384''),
     (0x1303, ''TLS_CHACHA20_POLY1305_SHA256''),
     (0, '''')]"

definition TLSVersionString :: "uint16 \<Rightarrow> string" where
  "TLSVersionString v =
     (case map_of tlsVersionString v of
        Some str \<Rightarrow> str
      | None \<Rightarrow> ''TLS_VERSION_UNKNOWN_'' @ itoa (unat v))"

definition TLSCipherSuiteString :: "uint16 \<Rightarrow> string" where
  "TLSCipherSuiteString v =
     (case map_of tlsCipherSuiteString v of
        Some str \<Rightarrow> str
      | None \<Rightarrow> ''TLS_CIPHER_SUITE_UNKNOWN_'' @ itoa (unat v))"

section \<open>The configuration object\<close>

text \<open>
  \<open>crypto/tls.Config\<close> belongs to the Go standard library. The record lists its fields
  in declaration order, unexported ones included, since the reflection loop of
  \<open>NewClientConnStdlib\<close> visits every field. The layout is that of Go 1.23, the
  toolchain the repository builds with (\<open>golang:1.23.7\<close> in its Dockerfile), which
  has the two Encrypted Client Hello fields after \<open>KeyLogWriter\<close>.
\<close>

record RWMutex =
  w_state :: int
  w_sema :: int
  writerSem :: int
  readerSem :: int
  readerCount :: int
  readerWait :: int

record tls_Config =
  Rand :: ref
  Time :: ref
  Certificates :: "nat slice"
  NameToCertificate :: "(string \<times> nat) slice"
  GetCertificate :: ref
  GetClientCertificate :: ref
  GetConfigForClient :: ref
  VerifyPeerCertificate :: ref
  VerifyConnection :: ref
  RootCAs :: ref
  NextProtos :: "string slice"
  ServerName :: string
  ClientAuth :: int
  ClientCAs :: ref
  InsecureSkipVerify :: bool
  CipherSuites :: "uint16 slice"
  PreferServerCipherSuites :: bool
  SessionTicketsDisabled :: bool
  SessionTicketKey :: "byte list"
  ClientSessionCache :: ref
  UnwrapSession :: ref
  WrapSession :: ref
  MinVersion :: uint16
  MaxVersion :: uint16
  CurvePreferences :: "uint16 slice"
  DynamicRecordSizingDisabled :: bool
  Renegotiation :: int
  KeyLogWriter :: ref
  EncryptedClientHelloConfigList :: "byte slice"
  EncryptedClientHelloRejectionVerify :: ref
  mutex :: RWMutex
  sessionTicketKeys :: "nat slice"
  autoSessionTicketKeys :: "nat slice"

definition zeroRWMutex :: RWMutex where
  "zeroRWMutex =
     \<lparr>w_state = 0, w_sema = 0, writerSem = 0, readerSem = 0, readerCount = 0,
      readerWait = 0\<rparr>"

text \<open>\<open>&tls.Config{}\<close>: every field at its zero value.\<close>

definition emptyConfig :: tls_Config where
  "emptyConfig =
     \<lparr>Rand = None, Time = None, Certificates = None, NameToCertificate = None,
      GetCertificate = None, GetClientCertificate = None, GetConfigForClient = None,
      VerifyPeerCertificate = None, VerifyConnection = None, RootCAs = None,
      NextProtos = None, ServerName = [], ClientAuth = 0, ClientCAs = None,
      InsecureSkipVerify = False, CipherSuites = None,
      PreferServerCipherSuites = False, SessionTicketsDisabled = False,
      SessionTicketKey = replicate 32 0, ClientSessionCache = None,
      UnwrapSession = None, WrapSession = None, MinVersion = 0, MaxVersion = 0,
      CurvePreferences = None, DynamicRecordSizingDisabled = False,
      Renegotiation = 0, KeyLogWriter = None, EncryptedClientHelloConfigList = None,
      EncryptedClientHelloRejectionVerify = None, mutex = zeroRWMutex,
      sessionTicketKeys = None, autoSessionTicketKeys = None\<rparr>"

text \<open>
  The reflective view of a configuration: for each field, in declaration order, its
  name (\<open>kind.Field(idx).Name\<close>) and whether \<open>value.Field(idx).IsZero()\<close> holds.
\<close>

definition reflectFields :: "tls_Config \<Rightarrow> (string \<times> bool) list" where
  "reflectFields c =
    [(''Rand'', Rand c = None),
     (''Time'', Time c = None),
     (''Certificates'', Certificates c = None),
     (''NameToCertificate'', NameToCertificate c = None),
     (''GetCertificate'', GetCertificate c = None),
     (''GetClientCertificate'', GetClientCertificate c = None),
     (''GetConfigForClient'', GetConfigForClient c = None),
     (''VerifyPeerCertificate'', VerifyPeerCertificate c = None),
     (''VerifyConnection'', VerifyConnection c = None),
     (''RootCAs'', RootCAs c = None),
     (''NextProtos'', NextProtos c = None),
     (''ServerName'', ServerName c = []),
     (''ClientAuth'', ClientAuth c = 0),
     (''ClientCAs'', ClientCAs c = None),
     (''InsecureSkipVerify'', InsecureSkipVerify c = False),
     (''CipherSuites'', CipherSuites c = None),
     (''PreferServerCipherSuites'', PreferServerCipherSuites c = False),
     (''SessionTicketsDisabled'', SessionTicketsDisabled c = False),
     (''SessionTicketKey'', list_all (\<lambda>b. b = 0) (SessionTicketKey c)),
     (''ClientSessionCache'', ClientSessionCache c = None),
     (''UnwrapSession'', UnwrapSession c = None),
     (''WrapSession'', WrapSession c = None),
     (''MinVersion'', MinVersion c = 0),
     (''MaxVersion'', MaxVersion c = 0),
     (''CurvePreferences'', CurvePreferences c = None),
     (''DynamicRecordSizingDisabled'', DynamicRecordSizingDisabled c = False),
     (''Renegotiation'', Renegotiation c = 0),
     (''KeyLogWriter'', KeyLogWriter c = None),
     (''EncryptedClientHelloConfigList'', EncryptedClientHelloConfigList c = None),
     (''EncryptedClientHelloRejectionVerify'', EncryptedClientHelloRejectionVerify c = None),
     (''mutex'', mutex c = zeroRWMutex),
     (''sessionTicketKeys'', sessionTicketKeys c = None),
     (''autoSessionTicketKeys'', autoSessionTicketKeys c = None)]"

section \<open>ConfigureTLSVersion (lines 136-156)\<close>

text \<open>
  The function writes through its pointer argument; the model returns the configuration
  as the call leaves it, next to the error. A nil pointer panics on the first write.
\<close>

definition ConfigureTLSVersion ::
    "tls_Config option \<Rightarrow> string \<Rightarrow> (tls_Config option \<times> error option) outcome" where
  "ConfigureTLSVersion config version =
     (if version = ''TLSv1.3'' then
        (case config of
           None \<Rightarrow> Panics nilDereference
         | Some c \<Rightarrow>
             Returns (Some (c\<lparr>MinVersion := VersionTLS13, MaxVersion := VersionTLS13\<rparr>), None))
      else if version = ''TLSv1.2'' then
        (case config of
           None \<Rightarrow> Panics nilDereference
         | Some c \<Rightarrow>
             Returns (Some (c\<lparr>MinVersion := VersionTLS12, MaxVersion := VersionTLS12\<rparr>), None))
      else if version = ''TLSv1.1'' then
        (case config of
           None \<Rightarrow> Panics nilDereference
         | Some c \<Rightarrow>
             Returns (Some (c\<lparr>MinVersion := VersionTLS11, MaxVersion := VersionTLS11\<rparr>), None))
      else if version = ''TLSv1.0'' \<or> version = ''TLSv1'' then
        (case config of
           None \<Rightarrow> Panics nilDereference
         | Some c \<Rightarrow>
             Returns (Some (c\<lparr>MinVersion := VersionTLS10, MaxVersion := VersionTLS10\<rparr>), None))
      else if version = '''' then Returns (config, None)
      else Returns (config, Some ErrInvalidTLSVersion))"

section \<open>NewClientConnStdlib (lines 270-304)\<close>

type_synonym Conn = nat

text \<open>\<open>*tls.Conn\<close> as built by \<open>tls.Client(conn, config)\<close>.\<close>

record tls_Conn =
  tlsconn_conn :: Conn
  tlsconn_config :: tls_Config

definition tls_Client :: "Conn \<Rightarrow> tls_Config \<Rightarrow> tls_Conn" where
  "tls_Client c cfg = \<lparr>tlsconn_conn = c, tlsconn_config = cfg\<rparr>"

text \<open>A lookup in the Go map yields \<open>false\<close> for a missing key.\<close>

definition supportedFields :: "string \<Rightarrow> bool" where
  "supportedFields name =
     (case map_of
        [(''DynamicRecordSizingDisabled'', True),
         (''InsecureSkipVerify'', True),
         (''MaxVersion'', True),
         (''MinVersion'', True),
         (''NextProtos'', True),
         (''RootCAs'', True),
         (''ServerName'', True)] name of
        Some b \<Rightarrow> b
      | None \<Rightarrow> False)"

text \<open>The loop of lines 282-293: the first field that is nonzero and unsupported.\<close>

fun checkFields :: "(string \<times> bool) list \<Rightarrow> error option" where
  "checkFields [] = None"
| "checkFields ((name, isZero) # rest) =
     (if isZero then checkFields rest
      else if supportedFields name then checkFields rest
      else Some (Errorf_w ErrIncompatibleStdlibConfig
                   ('': field '' @ name @ '' is nonzero'')))"

definition NewClientConnStdlib ::
    "Conn \<Rightarrow> tls_Config option \<Rightarrow> (error + tls_Conn) outcome" where
  "NewClientConnStdlib c cfg =
     (case cfg of
        None \<Rightarrow> Panics ''reflect: call of reflect.Value.Type on zero Value''
      | Some config \<Rightarrow>
          (case checkFields (reflectFields config) of
             Some err \<Rightarrow> Returns (Inl err)
           | None \<Rightarrow>
               Returns (Inr (tls_Client c
                 (emptyConfig
                    \<lparr>DynamicRecordSizingDisabled := DynamicRecordSizingDisabled config,
                     InsecureSkipVerify := InsecureSkipVerify config,
                     MaxVersion := MaxVersion config,
                     MinVersion := MinVersion config,
                     NextProtos := NextProtos config,
                     RootCAs := RootCAs config,
                     ServerName := ServerName config\<rparr>)))))"

text \<open>
  The recognized set, in the words of the specification: a configuration is
  incompatible when a field outside the seven recognized ones is not at its zero
  value.
\<close>

definition unsupportedFieldNonzero :: "tls_Config \<Rightarrow> bool" where
  "unsupportedFieldNonzero c \<longleftrightarrow>
     Rand c \<noteq> None \<or> Time c \<noteq> None \<or> Certificates c \<noteq> None \<or>
     NameToCertificate c \<noteq> None \<or> GetCertificate c \<noteq> None \<or>
     GetClientCertificate c \<noteq> None \<or> GetConfigForClient c \<noteq> None \<or>
     VerifyPeerCertificate c \<noteq> None \<or> VerifyConnection c \<noteq> None \<or>
     ClientAuth c \<noteq> 0 \<or> ClientCAs c \<noteq> None \<or> CipherSuites c \<noteq> None \<or>
     PreferServerCipherSuites c \<or> SessionTicketsDisabled c \<or>
     (\<exists>b \<in> set (SessionTicketKey c). b \<noteq> 0) \<or> ClientSessionCache c \<noteq> None \<or>
     UnwrapSession c \<noteq> None \<or> WrapSession c \<noteq> None \<or>
     CurvePreferences c \<noteq> None \<or> Renegotiation c \<noteq> 0 \<or> KeyLogWriter c \<noteq> None \<or>
     EncryptedClientHelloConfigList c \<noteq> None \<or>
     EncryptedClientHelloRejectionVerify c \<noteq> None \<or>
     mutex c \<noteq> zeroRWMutex \<or> sessionTicketKeys c \<noteq> None \<or>
     autoSessionTicketKeys c \<noteq> None"

section \<open>Configuration objects behind pointers\<close>

text \<open>
  A \<open>*tls.Config\<close> is nil (\<open>None\<close>) or the address of a cell of the store. Allocation
  appends a cell, so a new object never shares its address with an older one. Reading
  through nil (or through an address that was never allocated) panics.
\<close>

type_synonym heap = "tls_Config list"
type_synonym Config_ptr = "nat option"

definition deref :: "heap \<Rightarrow> Config_ptr \<Rightarrow> tls_Config option" where
  "deref hp p =
     (case p of
        None \<Rightarrow> None
      | Some a \<Rightarrow> if a < length hp then Some (hp ! a) else None)"

definition new :: "tls_Config \<Rightarrow> heap \<Rightarrow> Config_ptr \<times> heap" where
  "new c hp = (Some (length hp), hp @ [c])"

definition store :: "heap \<Rightarrow> Config_ptr \<Rightarrow> tls_Config \<Rightarrow> heap" where
  "store hp p c = (case p of None \<Rightarrow> hp | Some a \<Rightarrow> hp[a := c])"

text \<open>
  \<open>(*tls.Config).Clone\<close> of the standard library: nil for nil, otherwise a new object
  with every field copied but the mutex.
\<close>

definition Clone :: "Config_ptr \<Rightarrow> heap \<Rightarrow> Config_ptr \<times> heap" where
  "Clone p hp =
     (case deref hp p of
        None \<Rightarrow> (None, hp)
      | Some c \<Rightarrow> new (c\<lparr>mutex := zeroRWMutex\<rparr>) hp)"

section \<open>tlsDialer.config (lines 400-418)\<close>

definition tlsDialer_config ::
    "Config_ptr \<Rightarrow> string \<Rightarrow> string \<Rightarrow> heap \<Rightarrow> Config_ptr outcome \<times> heap" where
  "tlsDialer_config dConfig host port hp0 =
     (case (if dConfig = None then new emptyConfig hp0 else (dConfig, hp0)) of
        (p0, hp1) \<Rightarrow>
          (case Clone p0 hp1 of
             (p, hp2) \<Rightarrow>
               (case deref hp2 p of
                  None \<Rightarrow> (Panics nilDereference, hp2)
                | Some c0 \<Rightarrow>
                    (let c1 = (if ServerName c0 = '''' then c0\<lparr>ServerName := host\<rparr> else c0);
                         c2 = (if len (NextProtos c1) \<le> 0 then
                                 (if port = ''443'' then
                                    c1\<lparr>NextProtos := Some [''h2'', ''http/1.1'']\<rparr>
                                  else if port = ''853'' then
                                    c1\<lparr>NextProtos := Some [''dot'']\<rparr>
                                  else c1)
                               else c1)
                     in (Returns p, store hp2 p c2)))))"

section \<open>The world the handshaker and the dialer act on\<close>

text \<open>
  Times are nanoseconds since the zero \<open>time.Time\<close>, durations are nanoseconds. The
  network state holds the clock, the deadline of every connection (\<open>zeroTime\<close>: none) and
  which connections are closed. The collaborators below the handshaker (the connection
  factory, the TLS engine) act on the network state; the trace and the debug logger
  record the calls they receive.
\<close>

type_synonym Time = int
type_synonym Duration = int

definition zeroTime :: Time where "zeroTime = 0"
definition Second :: Duration where "Second = 1000000000"

record netstate =
  clock :: Time
  deadline :: "Conn \<Rightarrow> Time"
  closed :: "Conn \<Rightarrow> bool"

record tls_ConnectionState =
  Version :: uint16
  CipherSuite :: uint16
  NegotiatedProtocol :: string

definition emptyConnectionState :: tls_ConnectionState where
  "emptyConnectionState = \<lparr>Version = 0, CipherSuite = 0, NegotiatedProtocol = ''''\<rparr>"

datatype TLSConn = StdlibConn tls_Conn | CustomConn nat

datatype Trace = DefaultTrace | AttachedTrace nat

record Context =
  contextTrace :: "Trace option"

datatype trace_event =
    OnTLSHandshakeStart Trace Time string Config_ptr
  | OnTLSHandshakeDone Trace Time string Config_ptr tls_ConnectionState "error option" Time

datatype fmt_arg =
    ArgString string
  | ArgStrings "string slice"
  | ArgError error
  | ArgDuration Duration

record world =
  net :: netstate
  configs :: heap
  traced :: "trace_event list"
  logged :: "(string \<times> fmt_arg list) list"

definition time_Now :: "world \<Rightarrow> Time" where
  "time_Now w = clock (net w)"

definition conn_SetDeadline :: "Conn \<Rightarrow> Time \<Rightarrow> world \<Rightarrow> world" where
  "conn_SetDeadline c t w = w\<lparr>net := (net w)\<lparr>deadline := (deadline (net w))(c := t)\<rparr>\<rparr>"

definition conn_Close :: "Conn \<Rightarrow> world \<Rightarrow> world" where
  "conn_Close c w = w\<lparr>net := (net w)\<lparr>closed := (closed (net w))(c := True)\<rparr>\<rparr>"

definition Debugf :: "string \<Rightarrow> fmt_arg list \<Rightarrow> world \<Rightarrow> world" where
  "Debugf format args w = w\<lparr>logged := logged w @ [(format, args)]\<rparr>"

text \<open>A deferred call runs when the body is left, by a return or by a panic.\<close>

definition go_defer ::
    "(world \<Rightarrow> world) \<Rightarrow> (world \<Rightarrow> 'a outcome \<times> world) \<Rightarrow> world \<Rightarrow> 'a outcome \<times> world" where
  "go_defer deferred body w = (case body w of (r, w') \<Rightarrow> (r, deferred w'))"

text \<open>
  Modelled from the spec: the Trace and \<open>ContextTraceOrDefault\<close> are not among the
  sources. "Reads the current Trace from the call's context (or uses the no-op default)
  and records a start event with a monotonic timestamp": the trace attached to the
  context, or the default one; \<open>TimeNow\<close> reads the clock; the two handshake
  callbacks are recorded with their arguments.
\<close>

definition ContextTraceOrDefault :: "Context \<Rightarrow> Trace" where
  "ContextTraceOrDefault ctx =
     (case contextTrace ctx of None \<Rightarrow> DefaultTrace | Some t \<Rightarrow> t)"

definition trace_TimeNow :: "Trace \<Rightarrow> world \<Rightarrow> Time" where
  "trace_TimeNow t w = clock (net w)"

definition trace_OnTLSHandshakeStart ::
    "Trace \<Rightarrow> Time \<Rightarrow> string \<Rightarrow> Config_ptr \<Rightarrow> world \<Rightarrow> world" where
  "trace_OnTLSHandshakeStart t started remoteAddr cfg w =
     w\<lparr>traced := traced w @ [OnTLSHandshakeStart t started remoteAddr cfg]\<rparr>"

definition trace_OnTLSHandshakeDone ::
    "Trace \<Rightarrow> Time \<Rightarrow> string \<Rightarrow> Config_ptr \<Rightarrow> tls_ConnectionState \<Rightarrow> error option \<Rightarrow>
     Time \<Rightarrow> world \<Rightarrow> world" where
  "trace_OnTLSHandshakeDone t started remoteAddr cfg state err finished w =
     w\<lparr>traced := traced w @
        [OnTLSHandshakeDone t started remoteAddr cfg state err finished]\<rparr>"

text \<open>
  Modelled from the spec: \<open>MaybeNewErrWrapper\<close> is not among the sources. "On failure,
  invokes [the classifier] with the matching Operation Tag and replaces the returned
  error with the Classified Error; on success, passes the result through unchanged",
  and "classification is attempted on the innermost raw cause only".
\<close>

fun rawCause :: "error \<Rightarrow> error" where
  "rawCause (ErrWrapper failure operation e) = rawCause e"
| "rawCause e = e"

definition MaybeNewErrWrapper ::
    "(error \<Rightarrow> string) \<Rightarrow> string \<Rightarrow> error option \<Rightarrow> error option" where
  "MaybeNewErrWrapper classifier operation err =
     (case err of
        None \<Rightarrow> None
      | Some e \<Rightarrow> Some (ErrWrapper (classifier (rawCause e)) operation e))"

definition TLSHandshakeOperation :: string where
  "TLSHandshakeOperation = ''tls_handshake''"

text \<open>
  Modelled from the spec: the provider is not among the sources. It is "a nil-safe
  reference; absence of an explicit provider falls back to a fixed default", with "a
  default trusted root store accessor".
\<close>

record UnderlyingNetwork =
  DefaultCertPool :: ref

text \<open>
  The collaborators of the handshaker that the sources only call: the TLS engine behind
  a \<open>TLSConn\<close>, the address of a connection, the classifier and the default provider.
\<close>

record env =
  HandshakeContext :: "TLSConn \<Rightarrow> Context \<Rightarrow> netstate \<Rightarrow> error option outcome \<times> netstate"
  ConnectionState :: "TLSConn \<Rightarrow> netstate \<Rightarrow> tls_ConnectionState"
  RemoteAddr :: "Conn \<Rightarrow> string"
  ClassifyTLSHandshakeError :: "error \<Rightarrow> string"
  DefaultUnderlyingNetwork :: UnderlyingNetwork

definition provider_Get :: "env \<Rightarrow> UnderlyingNetwork option \<Rightarrow> UnderlyingNetwork" where
  "provider_Get env p = (case p of None \<Rightarrow> DefaultUnderlyingNetwork env | Some n \<Rightarrow> n)"

section \<open>tlsHandshakerConfigurable (lines 182-242, 307-312)\<close>

record tlsHandshakerConfigurable =
  NewConn ::
    "(Conn \<Rightarrow> Config_ptr \<Rightarrow> heap \<Rightarrow> netstate \<Rightarrow> (error + TLSConn) outcome \<times> netstate) option"
  Timeout :: Duration
  provider :: "UnderlyingNetwork option"

definition tlsMaybeConnectionState ::
    "env \<Rightarrow> TLSConn \<Rightarrow> error option \<Rightarrow> netstate \<Rightarrow> tls_ConnectionState" where
  "tlsMaybeConnectionState env tlsconn err n =
     (if err \<noteq> None then emptyConnectionState else ConnectionState env tlsconn n)"

definition newConn ::
    "tlsHandshakerConfigurable \<Rightarrow> Conn \<Rightarrow> Config_ptr \<Rightarrow> heap \<Rightarrow> netstate \<Rightarrow>
     (error + TLSConn) outcome \<times> netstate" where
  "newConn h c cfg hp n =
     (case NewConn h of
        Some factory \<Rightarrow> factory c cfg hp n
      | None \<Rightarrow>
          (case NewClientConnStdlib c (deref hp cfg) of
             Panics msg \<Rightarrow> (Panics msg, n)
           | Returns (Inl err) \<Rightarrow> (Returns (Inl err), n)
           | Returns (Inr tc) \<Rightarrow> (Returns (Inr (StdlibConn tc)), n)))"

text \<open>Lines 220-224: the default pool goes on a clone when \<open>RootCAs\<close> is nil.\<close>

definition installRootCAs ::
    "env \<Rightarrow> tlsHandshakerConfigurable \<Rightarrow> Config_ptr \<Rightarrow> heap \<Rightarrow> (Config_ptr \<times> heap) outcome" where
  "installRootCAs env h cfg hp =
     (case deref hp cfg of
        None \<Rightarrow> Panics nilDereference
      | Some config \<Rightarrow>
          if RootCAs config = None then
            (case Clone cfg hp of
               (p, hp') \<Rightarrow>
                 (case deref hp' p of
                    None \<Rightarrow> Panics nilDereference
                  | Some c \<Rightarrow>
                      Returns (p, store hp' p
                        (c\<lparr>RootCAs := DefaultCertPool (provider_Get env (provider h))\<rparr>))))
          else Returns (cfg, hp))"

text \<open>Lines 229-241: the handshake on the connection the factory made.\<close>

definition handshakeTraced ::
    "env \<Rightarrow> Context \<Rightarrow> Conn \<Rightarrow> Config_ptr \<Rightarrow> TLSConn \<Rightarrow> world \<Rightarrow>
     (error + TLSConn) outcome \<times> world" where
  "handshakeTraced env ctx c cfg tlsconn w0 =
     (let remoteAddr = RemoteAddr env c;
          trace = ContextTraceOrDefault ctx;
          started = trace_TimeNow trace w0;
          w1 = trace_OnTLSHandshakeStart trace started remoteAddr cfg w0
      in case HandshakeContext env tlsconn ctx (net w1) of
           (Panics msg, n2) \<Rightarrow> (Panics msg, w1\<lparr>net := n2\<rparr>)
         | (Returns raw, n2) \<Rightarrow>
             (let w2 = w1\<lparr>net := n2\<rparr>;
                  err = MaybeNewErrWrapper (ClassifyTLSHandshakeError env)
                          TLSHandshakeOperation raw;
                  finished = trace_TimeNow trace w2;
                  state = tlsMaybeConnectionState env tlsconn err (net w2);
                  w3 = trace_OnTLSHandshakeDone trace started remoteAddr cfg state err
                         finished w2
              in case err of
                   Some e \<Rightarrow> (Returns (Inl e), w3)
                 | None \<Rightarrow> (Returns (Inr tlsconn), w3)))"

text \<open>Lines 225-228, then the block above.\<close>

definition connectAndHandshake ::
    "env \<Rightarrow> tlsHandshakerConfigurable \<Rightarrow> Context \<Rightarrow> Conn \<Rightarrow> Config_ptr \<Rightarrow> world \<Rightarrow>
     (error + TLSConn) outcome \<times> world" where
  "connectAndHandshake env h ctx c cfg w0 =
     (case newConn h c cfg (configs w0) (net w0) of
        (Panics msg, n1) \<Rightarrow> (Panics msg, w0\<lparr>net := n1\<rparr>)
      | (Returns (Inl err), n1) \<Rightarrow> (Returns (Inl err), w0\<lparr>net := n1\<rparr>)
      | (Returns (Inr tlsconn), n1) \<Rightarrow>
          handshakeTraced env ctx c cfg tlsconn (w0\<lparr>net := n1\<rparr>))"

text \<open>
  The whole method. The deferred \<open>SetDeadline(time.Time{})\<close> of line 218 wraps
  everything after it.
\<close>

definition Handshake ::
    "env \<Rightarrow> tlsHandshakerConfigurable \<Rightarrow> Context \<Rightarrow> Conn \<Rightarrow> Config_ptr \<Rightarrow> world \<Rightarrow>
     (error + TLSConn) outcome \<times> world" where
  "Handshake env h ctx c cfg w =
     (let timeout = (if Timeout h \<le> 0 then 10 * Second else Timeout h)
      in go_defer (conn_SetDeadline c zeroTime)
           (\<lambda>w0.
              let w1 = conn_SetDeadline c (time_Now w0 + timeout) w0
              in case installRootCAs env h cfg (configs w1) of
                   Panics msg \<Rightarrow> (Panics msg, w1)
                 | Returns (cfg', hp') \<Rightarrow>
                     connectAndHandshake env h ctx c cfg' (w1\<lparr>configs := hp'\<rparr>))
           w)"

section \<open>tlsHandshakerLogger (lines 163-176, 315-344)\<close>

type_synonym handshaker =
  "Context \<Rightarrow> Conn \<Rightarrow> Config_ptr \<Rightarrow> world \<Rightarrow> (error + TLSConn) outcome \<times> world"

text \<open>
  The wrapped handshaker is any handshaker. The \<open>DebugLogger\<close> field is the sink that
  \<open>Debugf\<close> writes to, the \<open>logged\<close> component of the world.
\<close>

record tlsHandshakerLogger =
  logger_TLSHandshaker :: handshaker

definition newTLSHandshakerLogger :: "handshaker \<Rightarrow> tlsHandshakerLogger" where
  "newTLSHandshakerLogger th = \<lparr>logger_TLSHandshaker = th\<rparr>"

definition NewTLSHandshakerStdlib :: "env \<Rightarrow> UnderlyingNetwork option \<Rightarrow> tlsHandshakerLogger" where
  "NewTLSHandshakerStdlib env netxProvider =
     newTLSHandshakerLogger
       (Handshake env \<lparr>NewConn = None, Timeout = 0, provider = netxProvider\<rparr>)"

definition MaybeTLSConnectionState ::
    "env \<Rightarrow> TLSConn option \<Rightarrow> netstate \<Rightarrow> tls_ConnectionState" where
  "MaybeTLSConnectionState env tlsconn n =
     (case tlsconn of
        Some tc \<Rightarrow> ConnectionState env tc n
      | None \<Rightarrow> emptyConnectionState)"

definition tlsHandshakerLogger_Handshake ::
    "env \<Rightarrow> tlsHandshakerLogger \<Rightarrow> Context \<Rightarrow> Conn \<Rightarrow> Config_ptr \<Rightarrow> world \<Rightarrow>
     (error + TLSConn) outcome \<times> world" where
  "tlsHandshakerLogger_Handshake env h ctx c cfg w0 =
     (case deref (configs w0) cfg of
        None \<Rightarrow> (Panics nilDereference, w0)
      | Some config0 \<Rightarrow>
          (let w1 = Debugf ''tls_handshake {sni=%s next=%+v}...''
                      [ArgString (ServerName config0), ArgStrings (NextProtos config0)] w0;
               start = time_Now w1
           in case logger_TLSHandshaker h ctx c cfg w1 of
                (Panics msg, w2) \<Rightarrow> (Panics msg, w2)
              | (Returns (Inl err), w2) \<Rightarrow>
                  (let elapsed = time_Now w2 - start
                   in case deref (configs w2) cfg of
                        None \<Rightarrow> (Panics nilDereference, w2)
                      | Some config \<Rightarrow>
                          (Returns (Inl err),
                           Debugf ''tls_handshake {sni=%s next=%+v}... %s in %s''
                             [ArgString (ServerName config), ArgStrings (NextProtos config),
                              ArgError err, ArgDuration elapsed] w2))
              | (Returns (Inr tlsconn), w2) \<Rightarrow>
                  (let elapsed = time_Now w2 - start;
                       state = MaybeTLSConnectionState env (Some tlsconn) (net w2)
                   in case deref (configs w2) cfg of
                        None \<Rightarrow> (Panics nilDereference, w2)
                      | Some config \<Rightarrow>
                          (Returns (Inr tlsconn),
                           Debugf
                             ''tls_handshake {sni=%s next=%+v}... ok in %s {next=%s cipher=%s v=%s}''
                             [ArgString (ServerName config), ArgStrings (NextProtos config),
                              ArgDuration elapsed, ArgString (NegotiatedProtocol state),
                              ArgString (TLSCipherSuiteString (CipherSuite state)),
                              ArgString (TLSVersionString (Version state))] w2))))"

section \<open>net.SplitHostPort\<close>

text \<open>
  The function of the Go standard library that both dialers call first. A byte search
  yields \<open>None\<close> where Go yields \<open>-1\<close>.
\<close>

definition IndexByteString :: "string \<Rightarrow> char \<Rightarrow> nat option" where
  "IndexByteString s b =
     (if b \<in> set s then Some (length (takeWhile (\<lambda>x. x \<noteq> b) s)) else None)"

definition LastIndexByteString :: "string \<Rightarrow> char \<Rightarrow> nat option" where
  "LastIndexByteString s b =
     (if b \<in> set s then Some (length s - 1 - length (takeWhile (\<lambda>x. x \<noteq> b) (rev s)))
      else None)"

definition hostBetweenBrackets ::
    "string \<Rightarrow> nat \<Rightarrow> error + (string \<times> nat \<times> nat)" where
  "hostBetweenBrackets hostport i =
     (case IndexByteString hostport CHR '']'' of
        None \<Rightarrow> Inl (AddrError ''missing ']' in address'' hostport)
      | Some e \<Rightarrow>
          if e + 1 = length hostport then
            Inl (AddrError ''missing port in address'' hostport)
          else if e + 1 = i then Inr (drop 1 (take e hostport), 1, e + 1)
          else if hostport ! (e + 1) = CHR '':'' then
            Inl (AddrError ''too many colons in address'' hostport)
          else Inl (AddrError ''missing port in address'' hostport))"

definition SplitHostPort :: "string \<Rightarrow> error + (string \<times> string)" where
  "SplitHostPort hostport =
     (case LastIndexByteString hostport CHR '':'' of
        None \<Rightarrow> Inl (AddrError ''missing port in address'' hostport)
      | Some i \<Rightarrow>
          (case (if hostport ! 0 = CHR ''['' then hostBetweenBrackets hostport i
                 else if IndexByteString (take i hostport) CHR '':'' \<noteq> None then
                   Inl (AddrError ''too many colons in address'' hostport)
                 else Inr (take i hostport, 0, 0)) of
             Inl err \<Rightarrow> Inl err
           | Inr (host, j, k) \<Rightarrow>
               if IndexByteString (drop j hostport) CHR ''['' \<noteq> None then
                 Inl (AddrError ''unexpected '[' in address'' hostport)
               else if IndexByteString (drop k hostport) CHR '']'' \<noteq> None then
                 Inl (AddrError ''unexpected ']' in address'' hostport)
               else Inr (host, drop (i + 1) hostport)))"

section \<open>tlsDialer (lines 357-392)\<close>

record tlsDialer =
  Config :: Config_ptr
  Dialer :: "Context \<Rightarrow> string \<Rightarrow> string \<Rightarrow> world \<Rightarrow> (error + Conn) outcome \<times> world"
  TLSHandshaker :: handshaker

definition DialTLSContext ::
    "tlsDialer \<Rightarrow> Context \<Rightarrow> string \<Rightarrow> string \<Rightarrow> world \<Rightarrow>
     (error + TLSConn) outcome \<times> world" where
  "DialTLSContext d ctx network address w0 =
     (case SplitHostPort address of
        Inl err \<Rightarrow> (Returns (Inl err), w0)
      | Inr (host, port) \<Rightarrow>
          (case Dialer d ctx network address w0 of
             (Panics msg, w1) \<Rightarrow> (Panics msg, w1)
           | (Returns (Inl err), w1) \<Rightarrow> (Returns (Inl err), w1)
           | (Returns (Inr c), w1) \<Rightarrow>
               (case tlsDialer_config (Config d) host port (configs w1) of
                  (Panics msg, hp) \<Rightarrow> (Panics msg, w1\<lparr>configs := hp\<rparr>)
                | (Returns cfg, hp) \<Rightarrow>
                    (case TLSHandshaker d ctx c cfg (w1\<lparr>configs := hp\<rparr>) of
                       (Panics msg, w3) \<Rightarrow> (Panics msg, w3)
                     | (Returns (Inl err), w3) \<Rightarrow> (Returns (Inl err), conn_Close c w3)
                     | (Returns (Inr tlsconn), w3) \<Rightarrow> (Returns (Inr tlsconn), w3)))))"

section \<open>The legacy tlsdialer.TLSDialer\<close>

text \<open>
  Its handshaker returns the connection, its state and the error; the dialer drops
  the state.
\<close>

record legacy_TLSDialer =
  legacy_Config :: Config_ptr
  legacy_Dialer :: "Context \<Rightarrow> string \<Rightarrow> string \<Rightarrow> world \<Rightarrow> (error + Conn) outcome \<times> world"
  legacy_TLSHandshaker ::
    "Context \<Rightarrow> Conn \<Rightarrow> Config_ptr \<Rightarrow> world \<Rightarrow>
     (error + TLSConn \<times> tls_ConnectionState) outcome \<times> world"

text \<open>Lines 131-139 of the legacy dialer: the configuration it hands to the handshaker.\<close>

definition legacy_config ::
    "Config_ptr \<Rightarrow> string \<Rightarrow> heap \<Rightarrow> Config_ptr outcome \<times> heap" where
  "legacy_config dConfig host hp0 =
     (case (if dConfig = None then new emptyConfig hp0 else Clone dConfig hp0) of
        (cfg, hp1) \<Rightarrow>
          (case deref hp1 cfg of
             None \<Rightarrow> (Panics nilDereference, hp1)
           | Some c0 \<Rightarrow>
               if ServerName c0 = '''' then
                 (Returns cfg, store hp1 cfg (c0\<lparr>ServerName := host\<rparr>))
               else (Returns cfg, hp1)))"

definition legacy_DialTLSContext ::
    "legacy_TLSDialer \<Rightarrow> Context \<Rightarrow> string \<Rightarrow> string \<Rightarrow> world \<Rightarrow>
     (error + TLSConn) outcome \<times> world" where
  "legacy_DialTLSContext d ctx network address w0 =
     (case SplitHostPort address of
        Inl err \<Rightarrow> (Returns (Inl err), w0)
      | Inr (host, port) \<Rightarrow>
          (case legacy_Dialer d ctx network address w0 of
             (Panics msg, w1) \<Rightarrow> (Panics msg, w1)
           | (Returns (Inl err), w1) \<Rightarrow> (Returns (Inl err), w1)
           | (Returns (Inr c), w1) \<Rightarrow>
               (case legacy_config (legacy_Config d) host (configs w1) of
                  (Panics msg, hp) \<Rightarrow> (Panics msg, w1\<lparr>configs := hp\<rparr>)
                | (Returns cfg, hp) \<Rightarrow>
                    (case legacy_TLSHandshaker d ctx c cfg (w1\<lparr>configs := hp\<rparr>) of
                       (Panics msg, w3) \<Rightarrow> (Panics msg, w3)
                     | (Returns (Inl err), w3) \<Rightarrow> (Returns (Inl err), conn_Close c w3)
                     | (Returns (Inr (tlsconn, state)), w3) \<Rightarrow>
                         (Returns (Inr tlsconn), w3)))))"

section \<open>Concrete inputs\<close>

text \<open>
  A world with one configuration object, a context without a trace, and collaborators
  with fixed answers, on which the theorems below are run.
\<close>

definition exampleNet :: netstate where
  "exampleNet = \<lparr>clock = 1000, deadline = (\<lambda>c. 0), closed = (\<lambda>c. False)\<rparr>"

definition exampleWorld :: world where
  "exampleWorld = \<lparr>net = exampleNet, configs = [emptyConfig], traced = [], logged = []\<rparr>"

definition background :: Context where
  "background = \<lparr>contextTrace = None\<rparr>"

text \<open>A TLS engine whose handshake takes five time units and is reset by the peer.\<close>

definition resetEnv :: env where
  "resetEnv =
     \<lparr>HandshakeContext =
        (\<lambda>tlsconn ctx n. (Returns (Some (OtherError ''connection reset by peer'')),
                            n\<lparr>clock := clock n + 5\<rparr>)),
      ConnectionState = (\<lambda>tlsconn n. emptyConnectionState),
      RemoteAddr = (\<lambda>c. ''93.184.216.34:443''),
      ClassifyTLSHandshakeError = (\<lambda>e. ''connection_reset''),
      DefaultUnderlyingNetwork = \<lparr>DefaultCertPool = Some 1\<rparr>\<rparr>"

text \<open>A TLS engine whose handshake panics.\<close>

definition panicEnv :: env where
  "panicEnv =
     \<lparr>HandshakeContext = (\<lambda>tlsconn ctx n. (Panics ''boom'', n\<lparr>clock := clock n + 5\<rparr>)),
      ConnectionState = (\<lambda>tlsconn n. emptyConnectionState),
      RemoteAddr = (\<lambda>c. ''93.184.216.34:443''),
      ClassifyTLSHandshakeError = (\<lambda>e. ''unknown_failure''),
      DefaultUnderlyingNetwork = \<lparr>DefaultCertPool = Some 1\<rparr>\<rparr>"

definition stdlibHandshaker :: tlsHandshakerConfigurable where
  "stdlibHandshaker = \<lparr>NewConn = None, Timeout = 0, provider = None\<rparr>"

text \<open>A dialer whose collaborators panic and close a connection whenever they are called.\<close>

definition panickingDialer :: tlsDialer where
  "panickingDialer =
     \<lparr>Config = None,
      Dialer = (\<lambda>ctx network address w. (Panics ''dialed'', conn_Close 0 w)),
      TLSHandshaker = (\<lambda>ctx c cfg w. (Panics ''handshake'', conn_Close 0 w))\<rparr>"

text \<open>Dialers that connect (connection 3) and whose handshaker fails.\<close>

definition failingDialer :: tlsDialer where
  "failingDialer =
     \<lparr>Config = None,
      Dialer = (\<lambda>ctx network address w. (Returns (Inr 3), w)),
      TLSHandshaker = (\<lambda>ctx c cfg w. (Returns (Inl (OtherError ''handshake failed'')), w))\<rparr>"

definition legacyFailingDialer :: legacy_TLSDialer where
  "legacyFailingDialer =
     \<lparr>legacy_Config = None,
      legacy_Dialer = (\<lambda>ctx network address w. (Returns (Inr 3), w)),
      legacy_TLSHandshaker =
        (\<lambda>ctx c cfg w. (Returns (Inl (OtherError ''handshake failed'')), w))\<rparr>"




text \<open>
  What the handshaker makes of the configuration of \<open>exampleWorld\<close>: the clone with the
  default pool, the connection of the standard factory, the network state with the
  deadline of connection 3 set.
\<close>

definition exampleClone :: tls_Config where
  "exampleClone = emptyConfig\<lparr>mutex := zeroRWMutex, RootCAs := Some 1\<rparr>"

definition exampleTLSConn :: TLSConn where
  "exampleTLSConn = StdlibConn (tls_Client 3 (emptyConfig\<lparr>RootCAs := Some 1\<rparr>))"

definition exampleNetDeadline :: netstate where
  "exampleNetDeadline = exampleNet\<lparr>deadline := (deadline exampleNet)(3 := 10000001000)\<rparr>"







section \<open>Names of versions and cipher suites\<close>

lemma map_of_tlsVersionString:
  "map_of tlsVersionString v =
     (if v = VersionTLS10 then Some ''TLSv1''
      else if v = VersionTLS11 then Some ''TLSv1.1''
      else if v = VersionTLS12 then Some ''TLSv1.2''
      else if v = VersionTLS13 then Some ''TLSv1.3''
      else if v = 0 then Some '''' else None)"
  by (simp add: tlsVersionString_def)

lemma versions_distinct:
  "distinct [VersionTLS10, VersionTLS11, VersionTLS12, VersionTLS13, 0]"
  by (simp add: VersionTLS10_def VersionTLS11_def VersionTLS12_def VersionTLS13_def)

lemma TLSCipherSuiteString_unknown:
  assumes "v \<notin> fst ` set tlsCipherSuiteString"
  shows "TLSCipherSuiteString v = ''TLS_CIPHER_SUITE_UNKNOWN_'' @ itoa (unat v)"
proof -
  from assms have "map_of tlsCipherSuiteString v = None"
    by (simp add: map_of_eq_None_iff)
  then show ?thesis by (simp add: TLSCipherSuiteString_def)
qed

text \<open>The decimal digits that \<open>itoa\<close> writes read back as the number.\<close>

lemma digit_value:
  assumes "k < 10"
  shows "(of_char (''0123456789'' ! k) :: nat) = 48 + k"
proof -
  from assms have "k \<in> {0, 1, 2, 3, 4, 5, 6, 7, 8, 9}" by auto
  then show ?thesis by auto
qed

lemma atoi_itoa: "atoi (itoa n) = n"
proof (induction n rule: itoa.induct)
  case (1 n)
  show ?case
  proof (cases "n < 10")
    case True
    then show ?thesis
      by (subst itoa.simps) (simp add: atoi_def digit_value)
  next
    case False
    have m: "n mod 10 < 10" by simp
    from False 1 have ih: "atoi (itoa (n div 10)) = n div 10" by simp
    have "atoi (itoa n) = 10 * atoi (itoa (n div 10)) + n mod 10"
      using False by (subst itoa.simps) (simp add: atoi_def digit_value [OF m])
    with ih show ?thesis by simp
  qed
qed

text \<open>
  C7. \<open>TLSVersionString\<close> gives the documented name for each of the four known
  versions (0x0301 to 0x0304), the empty string for zero and \<open>TLS_VERSION_UNKNOWN_\<close>
  followed by the decimal value for every other 16-bit value; \<open>TLSCipherSuiteString\<close>
  gives its name for each of the twenty-five cipher suites of the source, the empty
  string for zero and \<open>TLS_CIPHER_SUITE_UNKNOWN_\<close> followed by the decimal value for
  every other 16-bit value. The digits written read back as the value. Both are total
  functions: no input makes them panic.
\<close>

theorem TLS_names_total:
  "VersionTLS10 = 0x0301 \<and> VersionTLS11 = 0x0302 \<and>
   VersionTLS12 = 0x0303 \<and> VersionTLS13 = 0x0304 \<and>
   TLSVersionString VersionTLS10 = ''TLSv1'' \<and>
   TLSVersionString VersionTLS11 = ''TLSv1.1'' \<and>
   TLSVersionString VersionTLS12 = ''TLSv1.2'' \<and>
   TLSVersionString VersionTLS13 = ''TLSv1.3'' \<and>
   TLSVersionString 0 = '''' \<and>
   (v \<notin> {VersionTLS10, VersionTLS11, VersionTLS12, VersionTLS13, 0} \<longrightarrow>
      TLSVersionString v = ''TLS_VERSION_UNKNOWN_'' @ itoa (unat v)) \<and>
   TLSCipherSuiteString 0x0005 = ''TLS_RSA_WITH_RC4_128_SHA'' \<and>
   TLSCipherSuiteString 0x000a = ''TLS_RSA_WITH_3DES_EDE_CBC_SHA'' \<and>
   TLSCipherSuiteString 0x002f = ''TLS_RSA_WITH_AES_128_CBC_SHA'' \<and>
   TLSCipherSuiteString 0x0035 = ''TLS_RSA_WITH_AES_256_CBC_SHA'' \<and>
   TLSCipherSuiteString 0x003c = ''TLS_RSA_WITH_AES_128_CBC_SHA256'' \<and>
   TLSCipherSuiteString 0x009c = ''TLS_RSA_WITH_AES_128_GCM_SHA256'' \<and>
   TLSCipherSuiteString 0x009d = ''TLS_RSA_WITH_AES_256_GCM_SHA384'' \<and>
   TLSCipherSuiteString 0xc007 = ''TLS_ECDHE_ECDSA_WITH_RC4_128_SHA'' \<and>
   TLSCipherSuiteString 0xc009 = ''TLS_ECDHE_ECDSA_WITH_AES_128_CBC_SHA'' \<and>
   TLSCipherSuiteString 0xc00a = ''TLS_ECDHE_ECDSA_WITH_AES_256_CBC_SHA'' \<and>
   TLSCipherSuiteString 0xc011 = ''TLS_ECDHE_RSA_WITH_RC4_128_SHA'' \<and>
   TLSCipherSuiteString 0xc012 = ''TLS_ECDHE_RSA_WITH_3DES_EDE_CBC_SHA'' \<and>
   TLSCipherSuiteString 0xc013 = ''TLS_ECDHE_RSA_WITH_AES_128_CBC_SHA'' \<and>
   TLSCipherSuiteString 0xc014 = ''TLS_ECDHE_RSA_WITH_AES_256_CBC_SHA'' \<and>
   TLSCipherSuiteString 0xc023 = ''TLS_ECDHE_ECDSA_WITH_AES_128_CBC_SHA256'' \<and>
   TLSCipherSuiteString 0xc027 = ''TLS_ECDHE_RSA_WITH_AES_128_CBC_SHA256'' \<and>
   TLSCipherSuiteString 0xc02f = ''TLS_ECDHE_RSA_WITH_AES_128_GCM_SHA256'' \<and>
   TLSCipherSuiteString 0xc02b = ''TLS_ECDHE_ECDSA_WITH_AES_128_GCM_SHA256'' \<and>
   TLSCipherSuiteString 0xc030 = ''TLS_ECDHE_RSA_WITH_AES_256_GCM_SHA384'' \<and>
   TLSCipherSuiteString 0xc02c = ''TLS_ECDHE_ECDSA_WITH_AES_256_GCM_SHA384'' \<and>
   TLSCipherSuiteString 0xcca8 = ''TLS_ECDHE_RSA_WITH_CHACHA20_POLY1305'' \<and>
   TLSCipherSuiteString 0xcca9 = ''TLS_ECDHE_ECDSA_WITH_CHACHA20_POLY1305'' \<and>
   TLSCipherSuiteString 0x1301 = ''TLS_AES_128_GCM_SHA256'' \<and>
   TLSCipherSuiteString 0x1302 = ''TLS_AES_256_GCM_SHA384'' \<and>
   TLSCipherSuiteString 0x1303 = ''TLS_CHACHA20_POLY1305_SHA256'' \<and>
   TLSCipherSuiteString 0 = '''' \<and>
   (v \<notin> {0x0005, 0x000a, 0x002f, 0x0035, 0x003c, 0x009c, 0x009d, 0xc007, 0xc009, 0xc00a,
          0xc011, 0xc012, 0xc013, 0xc014, 0xc023, 0xc027, 0xc02f, 0xc02b, 0xc030, 0xc02c,
          0xcca8, 0xcca9, 0x1301, 0x1302, 0x1303, 0} \<longrightarrow>
      TLSCipherSuiteString v = ''TLS_CIPHER_SUITE_UNKNOWN_'' @ itoa (unat v)) \<and>
   atoi (itoa (unat v)) = unat v"
proof -
  have vals: "VersionTLS10 = 0x0301" "VersionTLS11 = 0x0302"
      "VersionTLS12 = 0x0303" "VersionTLS13 = 0x0304"
    by (simp_all add: VersionTLS10_def VersionTLS11_def VersionTLS12_def VersionTLS13_def)
  have known: "TLSVersionString VersionTLS10 = ''TLSv1''"
      "TLSVersionString VersionTLS11 = ''TLSv1.1''"
      "TLSVersionString VersionTLS12 = ''TLSv1.2''"
      "TLSVersionString VersionTLS13 = ''TLSv1.3''"
      "TLSVersionString 0 = ''''"
    using versions_distinct by (auto simp: TLSVersionString_def map_of_tlsVersionString)
  have unknown: "v \<notin> {VersionTLS10, VersionTLS11, VersionTLS12, VersionTLS13, 0} \<longrightarrow>
      TLSVersionString v = ''TLS_VERSION_UNKNOWN_'' @ itoa (unat v)"
    by (simp add: TLSVersionString_def map_of_tlsVersionString)
  have keys: "fst ` set tlsCipherSuiteString =
      {0x0005, 0x000a, 0x002f, 0x0035, 0x003c, 0x009c, 0x009d, 0xc007, 0xc009, 0xc00a,
       0xc011, 0xc012, 0xc013, 0xc014, 0xc023, 0xc027, 0xc02f, 0xc02b, 0xc030, 0xc02c,
       0xcca8, 0xcca9, 0x1301, 0x1302, 0x1303, 0}"
    by (simp add: tlsCipherSuiteString_def)
  have other: "v \<notin> {0x0005, 0x000a, 0x002f, 0x0035, 0x003c, 0x009c, 0x009d, 0xc007, 0xc009,
          0xc00a, 0xc011, 0xc012, 0xc013, 0xc014, 0xc023, 0xc027, 0xc02f, 0xc02b, 0xc030,
          0xc02c, 0xcca8, 0xcca9, 0x1301, 0x1302, 0x1303, 0} \<longrightarrow>
      TLSCipherSuiteString v = ''TLS_CIPHER_SUITE_UNKNOWN_'' @ itoa (unat v)"
    using TLSCipherSuiteString_unknown [of v] unfolding keys by blast
  have suites:
    "TLSCipherSuiteString 0x0005 = ''TLS_RSA_WITH_RC4_128_SHA''"
    "TLSCipherSuiteString 0x000a = ''TLS_RSA_WITH_3DES_EDE_CBC_SHA''"
    "TLSCipherSuiteString 0x002f = ''TLS_RSA_WITH_AES_128_CBC_SHA''"
    "TLSCipherSuiteString 0x0035 = ''TLS_RSA_WITH_AES_256_CBC_SHA''"
    "TLSCipherSuiteString 0x003c = ''TLS_RSA_WITH_AES_128_CBC_SHA256''"
    "TLSCipherSuiteString 0x009c = ''TLS_RSA_WITH_AES_128_GCM_SHA256''"
    "TLSCipherSuiteString 0x009d = ''TLS_RSA_WITH_AES_256_GCM_SHA384''"
    "TLSCipherSuiteString 0xc007 = ''TLS_ECDHE_ECDSA_WITH_RC4_128_SHA''"
    "TLSCipherSuiteString 0xc009 = ''TLS_ECDHE_ECDSA_WITH_AES_128_CBC_SHA''"
    "TLSCipherSuiteString 0xc00a = ''TLS_ECDHE_ECDSA_WITH_AES_256_CBC_SHA''"
    "TLSCipherSuiteString 0xc011 = ''TLS_ECDHE_RSA_WITH_RC4_128_SHA''"
    "TLSCipherSuiteString 0xc012 = ''TLS_ECDHE_RSA_WITH_3DES_EDE_CBC_SHA''"
    "TLSCipherSuiteString 0xc013 = ''TLS_ECDHE_RSA_WITH_AES_128_CBC_SHA''"
    "TLSCipherSuiteString 0xc014 = ''TLS_ECDHE_RSA_WITH_AES_256_CBC_SHA''"
    "TLSCipherSuiteString 0xc023 = ''TLS_ECDHE_ECDSA_WITH_AES_128_CBC_SHA256''"
    "TLSCipherSuiteString 0xc027 = ''TLS_ECDHE_RSA_WITH_AES_128_CBC_SHA256''"
    "TLSCipherSuiteString 0xc02f = ''TLS_ECDHE_RSA_WITH_AES_128_GCM_SHA256''"
    "TLSCipherSuiteString 0xc02b = ''TLS_ECDHE_ECDSA_WITH_AES_128_GCM_SHA256''"
    "TLSCipherSuiteString 0xc030 = ''TLS_ECDHE_RSA_WITH_AES_256_GCM_SHA384''"
    "TLSCipherSuiteString 0xc02c = ''TLS_ECDHE_ECDSA_WITH_AES_256_GCM_SHA384''"
    "TLSCipherSuiteString 0xcca8 = ''TLS_ECDHE_RSA_WITH_CHACHA20_POLY1305''"
    "TLSCipherSuiteString 0xcca9 = ''TLS_ECDHE_ECDSA_WITH_CHACHA20_POLY1305''"
    "TLSCipherSuiteString 0x1301 = ''TLS_AES_128_GCM_SHA256''"
    "TLSCipherSuiteString 0x1302 = ''TLS_AES_256_GCM_SHA384''"
    "TLSCipherSuiteString 0x1303 = ''TLS_CHACHA20_POLY1305_SHA256''"
    "TLSCipherSuiteString 0 = ''''"
    by (simp_all add: TLSCipherSuiteString_def tlsCipherSuiteString_def)
  show ?thesis
    by (intro conjI vals known unknown suites other atoi_itoa)
qed

theorem TLS_names_total_witness:
  "TLSVersionString 0xFFFF = ''TLS_VERSION_UNKNOWN_65535'' \<and>
   TLSCipherSuiteString 0xFFFF = ''TLS_CIPHER_SUITE_UNKNOWN_65535'' \<and>
   TLSCipherSuiteString 0x1301 = ''TLS_AES_128_GCM_SHA256''"
proof -
  have a: "(0xFFFF :: uint16) \<notin> {VersionTLS10, VersionTLS11, VersionTLS12, VersionTLS13, 0}"
    by (simp add: VersionTLS10_def VersionTLS11_def VersionTLS12_def VersionTLS13_def)
  have b: "(0xFFFF :: uint16) \<notin>
      {0x0005, 0x000a, 0x002f, 0x0035, 0x003c, 0x009c, 0x009d, 0xc007, 0xc009, 0xc00a,
       0xc011, 0xc012, 0xc013, 0xc014, 0xc023, 0xc027, 0xc02f, 0xc02b, 0xc030, 0xc02c,
       0xcca8, 0xcca9, 0x1301, 0x1302, 0x1303, 0}"
    by simp
  have d: "itoa 65535 = ''65535''"
    by (simp add: itoa.simps)
  from TLS_names_total [of "0xFFFF"] a b
  have "TLSVersionString 0xFFFF = ''TLS_VERSION_UNKNOWN_'' @ itoa (unat (0xFFFF :: uint16))"
    and "TLSCipherSuiteString 0xFFFF =
      ''TLS_CIPHER_SUITE_UNKNOWN_'' @ itoa (unat (0xFFFF :: uint16))"
    and "TLSCipherSuiteString 0x1301 = ''TLS_AES_128_GCM_SHA256''"
    by blast+
  then show ?thesis by (simp add: d)
qed

section \<open>ConfigureTLSVersion\<close>

text \<open>
  C6. For each name of the closed set \<open>ConfigureTLSVersion\<close> sets \<open>MinVersion\<close> and
  \<open>MaxVersion\<close> to the named version, leaves the other fields alone and returns nil;
  for the empty string it returns nil and the configuration is unchanged; for every
  other string it returns \<open>ErrInvalidTLSVersion\<close> and the configuration is unchanged.
\<close>

theorem ConfigureTLSVersion_closed_set:
  "ConfigureTLSVersion (Some c) ''TLSv1.3'' =
     Returns (Some (c\<lparr>MinVersion := VersionTLS13, MaxVersion := VersionTLS13\<rparr>), None) \<and>
   ConfigureTLSVersion (Some c) ''TLSv1.2'' =
     Returns (Some (c\<lparr>MinVersion := VersionTLS12, MaxVersion := VersionTLS12\<rparr>), None) \<and>
   ConfigureTLSVersion (Some c) ''TLSv1.1'' =
     Returns (Some (c\<lparr>MinVersion := VersionTLS11, MaxVersion := VersionTLS11\<rparr>), None) \<and>
   ConfigureTLSVersion (Some c) ''TLSv1.0'' =
     Returns (Some (c\<lparr>MinVersion := VersionTLS10, MaxVersion := VersionTLS10\<rparr>), None) \<and>
   ConfigureTLSVersion (Some c) ''TLSv1'' =
     Returns (Some (c\<lparr>MinVersion := VersionTLS10, MaxVersion := VersionTLS10\<rparr>), None) \<and>
   ConfigureTLSVersion cfg '''' = Returns (cfg, None) \<and>
   (version \<notin> {''TLSv1.3'', ''TLSv1.2'', ''TLSv1.1'', ''TLSv1.0'', ''TLSv1'', ''''} \<longrightarrow>
      ConfigureTLSVersion cfg version = Returns (cfg, Some ErrInvalidTLSVersion))"
  by (simp add: ConfigureTLSVersion_def)

theorem ConfigureTLSVersion_closed_set_witness:
  "ConfigureTLSVersion (Some emptyConfig) ''TLSv1.5'' =
     Returns (Some emptyConfig, Some ErrInvalidTLSVersion) \<and>
   ConfigureTLSVersion (Some emptyConfig) ''TLSv1.3'' =
     Returns (Some (emptyConfig\<lparr>MinVersion := VersionTLS13, MaxVersion := VersionTLS13\<rparr>),
       None)"
proof -
  have "''TLSv1.5'' \<notin> {''TLSv1.3'', ''TLSv1.2'', ''TLSv1.1'', ''TLSv1.0'', ''TLSv1'', ''''}"
    by simp
  with ConfigureTLSVersion_closed_set [of emptyConfig "Some emptyConfig" "''TLSv1.5''"]
  show ?thesis by blast
qed

section \<open>NewClientConnStdlib\<close>

lemma supportedFields_iff:
  "supportedFields name \<longleftrightarrow>
     name \<in> {''DynamicRecordSizingDisabled'', ''InsecureSkipVerify'', ''MaxVersion'',
             ''MinVersion'', ''NextProtos'', ''RootCAs'', ''ServerName''}"
  by (simp add: supportedFields_def)

lemma checkFields_None_iff:
  "checkFields fs = None \<longleftrightarrow> (\<forall>(name, isZero) \<in> set fs. isZero \<or> supportedFields name)"
  by (induction fs rule: checkFields.induct) auto

lemma checkFields_Some_Is:
  "checkFields fs = Some e \<Longrightarrow> errors_Is e ErrIncompatibleStdlibConfig"
  by (induction fs rule: checkFields.induct) (auto split: if_splits)

lemma checkFields_reflectFields:
  "checkFields (reflectFields c) = None \<longleftrightarrow> \<not> unsupportedFieldNonzero c"
  unfolding checkFields_None_iff
  by (simp add: reflectFields_def supportedFields_iff unsupportedFieldNonzero_def list_all_iff)
    blast

lemma translated_config_zero_elsewhere:
  "\<not> unsupportedFieldNonzero
       (emptyConfig\<lparr>DynamicRecordSizingDisabled := d, InsecureSkipVerify := i,
          MaxVersion := ma, MinVersion := mi, NextProtos := np, RootCAs := r,
          ServerName := s\<rparr>)"
  by (simp add: unsupportedFieldNonzero_def emptyConfig_def)

text \<open>
  C1. \<open>NewClientConnStdlib\<close> returns an error that is \<open>ErrIncompatibleStdlibConfig\<close>
  exactly when a field outside the seven recognized ones is nonzero. Otherwise it
  succeeds, and the configuration of the connection it returns has the seven recognized
  fields of the input and every other field at its zero value. The loop itself decides
  this for any list of fields, whatever the layout of the structure: it passes exactly
  when every field is zero or recognized, and any error it gives is
  \<open>ErrIncompatibleStdlibConfig\<close>.
\<close>

theorem NewClientConnStdlib_incompatible_iff:
  "((\<exists>err. NewClientConnStdlib c (Some config) = Returns (Inl err) \<and>
           errors_Is err ErrIncompatibleStdlibConfig) \<longleftrightarrow>
      unsupportedFieldNonzero config) \<and>
   (\<not> unsupportedFieldNonzero config \<longrightarrow>
      (\<exists>tc. NewClientConnStdlib c (Some config) = Returns (Inr tc) \<and>
         tlsconn_conn tc = c \<and>
         DynamicRecordSizingDisabled (tlsconn_config tc) = DynamicRecordSizingDisabled config \<and>
         InsecureSkipVerify (tlsconn_config tc) = InsecureSkipVerify config \<and>
         MaxVersion (tlsconn_config tc) = MaxVersion config \<and>
         MinVersion (tlsconn_config tc) = MinVersion config \<and>
         NextProtos (tlsconn_config tc) = NextProtos config \<and>
         RootCAs (tlsconn_config tc) = RootCAs config \<and>
         ServerName (tlsconn_config tc) = ServerName config \<and>
         \<not> unsupportedFieldNonzero (tlsconn_config tc) \<and>
         tlsconn_config tc =
           emptyConfig\<lparr>DynamicRecordSizingDisabled := DynamicRecordSizingDisabled config,
             InsecureSkipVerify := InsecureSkipVerify config,
             MaxVersion := MaxVersion config, MinVersion := MinVersion config,
             NextProtos := NextProtos config, RootCAs := RootCAs config,
             ServerName := ServerName config\<rparr>)) \<and>
   (\<forall>fs. (checkFields fs = None \<longleftrightarrow>
           (\<forall>(name, isZero) \<in> set fs. isZero \<or>
              name \<in> {''DynamicRecordSizingDisabled'', ''InsecureSkipVerify'',
                      ''MaxVersion'', ''MinVersion'', ''NextProtos'', ''RootCAs'',
                      ''ServerName''})) \<and>
         (\<forall>e. checkFields fs = Some e \<longrightarrow> errors_Is e ErrIncompatibleStdlibConfig))"
proof -
  have struct:
    "((\<exists>err. NewClientConnStdlib c (Some config) = Returns (Inl err) \<and>
           errors_Is err ErrIncompatibleStdlibConfig) \<longleftrightarrow>
      unsupportedFieldNonzero config) \<and>
   (\<not> unsupportedFieldNonzero config \<longrightarrow>
      (\<exists>tc. NewClientConnStdlib c (Some config) = Returns (Inr tc) \<and>
         tlsconn_conn tc = c \<and>
         DynamicRecordSizingDisabled (tlsconn_config tc) = DynamicRecordSizingDisabled config \<and>
         InsecureSkipVerify (tlsconn_config tc) = InsecureSkipVerify config \<and>
         MaxVersion (tlsconn_config tc) = MaxVersion config \<and>
         MinVersion (tlsconn_config tc) = MinVersion config \<and>
         NextProtos (tlsconn_config tc) = NextProtos config \<and>
         RootCAs (tlsconn_config tc) = RootCAs config \<and>
         ServerName (tlsconn_config tc) = ServerName config \<and>
         \<not> unsupportedFieldNonzero (tlsconn_config tc) \<and>
         tlsconn_config tc =
           emptyConfig\<lparr>DynamicRecordSizingDisabled := DynamicRecordSizingDisabled config,
             InsecureSkipVerify := InsecureSkipVerify config,
             MaxVersion := MaxVersion config, MinVersion := MinVersion config,
             NextProtos := NextProtos config, RootCAs := RootCAs config,
             ServerName := ServerName config\<rparr>))"
  proof (cases "checkFields (reflectFields config)")
    case None
    then have ok: "\<not> unsupportedFieldNonzero config"
      by (simp add: checkFields_reflectFields)
    from None have "NewClientConnStdlib c (Some config) =
        Returns (Inr (tls_Client c
          (emptyConfig\<lparr>DynamicRecordSizingDisabled := DynamicRecordSizingDisabled config,
             InsecureSkipVerify := InsecureSkipVerify config,
             MaxVersion := MaxVersion config, MinVersion := MinVersion config,
             NextProtos := NextProtos config, RootCAs := RootCAs config,
             ServerName := ServerName config\<rparr>)))"
      by (simp add: NewClientConnStdlib_def)
    with ok translated_config_zero_elsewhere show ?thesis
      by (simp add: tls_Client_def)
  next
    case (Some e)
    have bad: "unsupportedFieldNonzero config"
    proof (rule ccontr)
      assume "\<not> unsupportedFieldNonzero config"
      then have "checkFields (reflectFields config) = None"
        by (simp add: checkFields_reflectFields)
      with Some show False by simp
    qed
    from Some have "NewClientConnStdlib c (Some config) = Returns (Inl e)"
      by (simp add: NewClientConnStdlib_def)
    with bad checkFields_Some_Is [OF Some] show ?thesis by simp
  qed
  have loop: "\<forall>fs. (checkFields fs = None \<longleftrightarrow>
           (\<forall>(name, isZero) \<in> set fs. isZero \<or>
              name \<in> {''DynamicRecordSizingDisabled'', ''InsecureSkipVerify'',
                      ''MaxVersion'', ''MinVersion'', ''NextProtos'', ''RootCAs'',
                      ''ServerName''})) \<and>
         (\<forall>e. checkFields fs = Some e \<longrightarrow> errors_Is e ErrIncompatibleStdlibConfig)"
    using checkFields_None_iff checkFields_Some_Is
    by (simp add: supportedFields_iff)
  from struct loop show ?thesis by blast
qed

theorem NewClientConnStdlib_incompatible_iff_witness:
  "(\<exists>err. NewClientConnStdlib 7 (Some (emptyConfig\<lparr>GetCertificate := Some 1\<rparr>)) =
            Returns (Inl err) \<and> errors_Is err ErrIncompatibleStdlibConfig) \<and>
   (\<exists>tc. NewClientConnStdlib 7 (Some (emptyConfig\<lparr>ServerName := ''example.com''\<rparr>)) =
            Returns (Inr tc) \<and>
          tlsconn_config tc = emptyConfig\<lparr>ServerName := ''example.com''\<rparr>) \<and>
   (\<exists>err. NewClientConnStdlib 7
            (Some (emptyConfig\<lparr>EncryptedClientHelloConfigList := Some [1]\<rparr>)) =
            Returns (Inl err) \<and> errors_Is err ErrIncompatibleStdlibConfig)"
proof -
  have ech: "unsupportedFieldNonzero
      (emptyConfig\<lparr>EncryptedClientHelloConfigList := Some [1]\<rparr>)"
    by (simp add: unsupportedFieldNonzero_def)
  from NewClientConnStdlib_incompatible_iff
      [of 7 "emptyConfig\<lparr>EncryptedClientHelloConfigList := Some [1]\<rparr>"] ech
  have third: "\<exists>err. NewClientConnStdlib 7
            (Some (emptyConfig\<lparr>EncryptedClientHelloConfigList := Some [1]\<rparr>)) =
            Returns (Inl err) \<and> errors_Is err ErrIncompatibleStdlibConfig"
    by blast
  have bad: "unsupportedFieldNonzero (emptyConfig\<lparr>GetCertificate := Some 1\<rparr>)"
    by (simp add: unsupportedFieldNonzero_def)
  have ok: "\<not> unsupportedFieldNonzero (emptyConfig\<lparr>ServerName := ''example.com''\<rparr>)"
    by (simp add: unsupportedFieldNonzero_def emptyConfig_def)
  have same: "emptyConfig\<lparr>DynamicRecordSizingDisabled := False, InsecureSkipVerify := False,
       MaxVersion := 0, MinVersion := 0, NextProtos := None, RootCAs := None,
       ServerName := ''example.com''\<rparr> = emptyConfig\<lparr>ServerName := ''example.com''\<rparr>"
    by (simp add: emptyConfig_def)
  from NewClientConnStdlib_incompatible_iff [of 7 "emptyConfig\<lparr>GetCertificate := Some 1\<rparr>"] bad
  have first: "\<exists>err. NewClientConnStdlib 7 (Some (emptyConfig\<lparr>GetCertificate := Some 1\<rparr>)) =
            Returns (Inl err) \<and> errors_Is err ErrIncompatibleStdlibConfig"
    by blast
  from NewClientConnStdlib_incompatible_iff [of 7 "emptyConfig\<lparr>ServerName := ''example.com''\<rparr>"] ok
  obtain tc where "NewClientConnStdlib 7 (Some (emptyConfig\<lparr>ServerName := ''example.com''\<rparr>)) =
      Returns (Inr tc)"
    and "tlsconn_config tc =
           emptyConfig\<lparr>DynamicRecordSizingDisabled :=
               DynamicRecordSizingDisabled (emptyConfig\<lparr>ServerName := ''example.com''\<rparr>),
             InsecureSkipVerify := InsecureSkipVerify (emptyConfig\<lparr>ServerName := ''example.com''\<rparr>),
             MaxVersion := MaxVersion (emptyConfig\<lparr>ServerName := ''example.com''\<rparr>),
             MinVersion := MinVersion (emptyConfig\<lparr>ServerName := ''example.com''\<rparr>),
             NextProtos := NextProtos (emptyConfig\<lparr>ServerName := ''example.com''\<rparr>),
             RootCAs := RootCAs (emptyConfig\<lparr>ServerName := ''example.com''\<rparr>),
             ServerName := ServerName (emptyConfig\<lparr>ServerName := ''example.com''\<rparr>)\<rparr>"
    by blast
  then have "\<exists>tc. NewClientConnStdlib 7 (Some (emptyConfig\<lparr>ServerName := ''example.com''\<rparr>)) =
            Returns (Inr tc) \<and>
          tlsconn_config tc = emptyConfig\<lparr>ServerName := ''example.com''\<rparr>"
    by (simp add: emptyConfig_def)
  with first third show ?thesis by blast
qed

section \<open>The store\<close>

lemma deref_nil [simp]: "deref hp None = None"
  by (simp add: deref_def)

lemma deref_valid: "a < length hp \<Longrightarrow> deref hp (Some a) = Some (hp ! a)"
  by (simp add: deref_def)

lemma deref_old [simp]: "a < length hp \<Longrightarrow> deref (hp @ cs) (Some a) = Some (hp ! a)"
  by (simp add: deref_def nth_append)

lemma deref_last [simp]: "deref (hp @ [c]) (Some (length hp)) = Some c"
  by (simp add: deref_def)

lemma store_last [simp]: "store (hp @ [c]) (Some (length hp)) c' = hp @ [c']"
  by (simp add: store_def)

lemma Clone_valid:
  "a < length hp \<Longrightarrow>
   Clone (Some a) hp = (Some (length hp), hp @ [(hp ! a)\<lparr>mutex := zeroRWMutex\<rparr>])"
  by (simp add: Clone_def new_def deref_valid)

lemma Clone_last:
  "Clone (Some (length hp)) (hp @ [c]) =
     (Some (Suc (length hp)), hp @ [c] @ [c\<lparr>mutex := zeroRWMutex\<rparr>])"
  using Clone_valid [of "length hp" "hp @ [c]"] by simp

lemma emptyConfig_fields [simp]:
  "ServerName emptyConfig = ''''" "NextProtos emptyConfig = None"
  "mutex emptyConfig = zeroRWMutex" "RootCAs emptyConfig = None"
  by (simp_all add: emptyConfig_def)

lemma emptyConfig_mutex: "emptyConfig\<lparr>mutex := zeroRWMutex\<rparr> = emptyConfig"
  by (simp add: emptyConfig_def)

section \<open>tlsDialer.config\<close>

lemma tlsDialer_config_nil:
  "tlsDialer_config None host port hp =
     (Returns (Some (Suc (length hp))),
      hp @ [emptyConfig,
            emptyConfig\<lparr>ServerName := host,
               NextProtos := (if port = ''443'' then Some [''h2'', ''http/1.1'']
                              else if port = ''853'' then Some [''dot''] else None)\<rparr>])"
proof -
  have d: "deref ((hp @ [emptyConfig]) @ [emptyConfig]) (Some (length (hp @ [emptyConfig]))) =
      Some emptyConfig"
    by (rule deref_last)
  have s: "\<And>c'. store ((hp @ [emptyConfig]) @ [emptyConfig])
      (Some (length (hp @ [emptyConfig]))) c' = (hp @ [emptyConfig]) @ [c']"
    by (rule store_last)
  show ?thesis
    using d s by (simp add: tlsDialer_config_def new_def Clone_last emptyConfig_mutex len_def)
qed

lemma tlsDialer_config_some:
  assumes "a < length hp"
  shows "tlsDialer_config (Some a) host port hp =
     (Returns (Some (length hp)),
      hp @ [(hp ! a)\<lparr>mutex := zeroRWMutex,
               ServerName := (if ServerName (hp ! a) = '''' then host else ServerName (hp ! a)),
               NextProtos := (if 0 < len (NextProtos (hp ! a)) then NextProtos (hp ! a)
                              else if port = ''443'' then Some [''h2'', ''http/1.1'']
                              else if port = ''853'' then Some [''dot'']
                              else NextProtos (hp ! a))\<rparr>])"
  using assms by (simp add: tlsDialer_config_def Clone_valid Let_def)

text \<open>
  C3. For every host and port, \<open>tlsDialer.config\<close> returns a new object \<open>p\<close>: a
  clone of the base configuration (of an empty configuration when the base is nil) in
  which \<open>ServerName\<close> is the host only where it was empty, \<open>NextProtos\<close> is
  \<open>["h2", "http/1.1"]\<close> for port 443 and \<open>["dot"]\<close> for port 853 only where it held
  no protocol, and is as given for any other port. Every object that existed before
  the call, the base configuration among them, is left as it was.
\<close>

theorem tlsDialer_config_derives_from_clone:
  assumes "dConfig = None \<or> (\<exists>a. dConfig = Some a \<and> a < length hp)"
  shows "\<exists>p hp' base.
      tlsDialer_config dConfig host port hp = (Returns (Some p), hp') \<and>
      base = (case deref hp dConfig of
                None \<Rightarrow> emptyConfig
              | Some b \<Rightarrow> b\<lparr>mutex := zeroRWMutex\<rparr>) \<and>
      deref hp' (Some p) =
        Some (base\<lparr>ServerName := (if ServerName base = '''' then host else ServerName base),
                NextProtos := (if 0 < len (NextProtos base) then NextProtos base
                               else if port = ''443'' then Some [''h2'', ''http/1.1'']
                               else if port = ''853'' then Some [''dot'']
                               else NextProtos base)\<rparr>) \<and>
      length hp \<le> p \<and>
      take (length hp) hp' = hp \<and>
      deref hp' dConfig = deref hp dConfig"
proof (cases dConfig)
  case None
  let ?c = "emptyConfig\<lparr>ServerName := host,
               NextProtos := (if port = ''443'' then Some [''h2'', ''http/1.1'']
                              else if port = ''853'' then Some [''dot''] else None)\<rparr>"
  have "deref ((hp @ [emptyConfig]) @ [?c]) (Some (length (hp @ [emptyConfig]))) = Some ?c"
    by (rule deref_last)
  then have "deref (hp @ [emptyConfig, ?c]) (Some (Suc (length hp))) = Some ?c"
    by simp
  with None show ?thesis
    by (simp add: tlsDialer_config_nil len_def)
next
  case (Some a)
  with assms have a: "a < length hp" by simp
  have d: "deref hp (Some a) = Some (hp ! a)"
    using a by (rule deref_valid)
  show ?thesis
    using Some a by (simp add: tlsDialer_config_some [OF a] d nth_append)
qed

theorem tlsDialer_config_derives_from_clone_witness:
  "\<exists>p hp'.
      tlsDialer_config (Some 0) ''example.com'' ''443'' [emptyConfig] =
        (Returns (Some p), hp') \<and>
      deref hp' (Some p) =
        Some (emptyConfig\<lparr>ServerName := ''example.com'',
                NextProtos := Some [''h2'', ''http/1.1'']\<rparr>) \<and>
      deref hp' (Some 0) = Some emptyConfig"
proof -
  have "Some 0 = (None :: Config_ptr) \<or> (\<exists>a. Some 0 = Some a \<and> a < length [emptyConfig])"
    by simp
  from tlsDialer_config_derives_from_clone [OF this, of "''example.com''" "''443''"]
  have "\<exists>p hp'.
      tlsDialer_config (Some 0) ''example.com'' ''443'' [emptyConfig] =
        (Returns (Some p), hp') \<and>
      deref hp' (Some p) =
        Some (emptyConfig\<lparr>ServerName := ''example.com'',
                NextProtos := Some [''h2'', ''http/1.1'']\<rparr>) \<and>
      Suc 0 \<le> p \<and> take (Suc 0) hp' = [emptyConfig] \<and>
      deref hp' (Some 0) = Some emptyConfig"
    by (simp add: deref_valid emptyConfig_mutex len_def)
  then show ?thesis by blast
qed

section \<open>The two dialers\<close>

lemma SplitHostPort_error:
  assumes "SplitHostPort address = Inl err"
  shows "\<exists>why. err = AddrError why address"
  using assms
  by (auto simp: SplitHostPort_def hostBetweenBrackets_def
      split: option.splits if_splits sum.splits)

text \<open>
  C10. When the address does not split into host and port, \<open>DialTLSContext\<close> returns
  the error of \<open>net.SplitHostPort\<close> itself, an address error and not a classified one,
  and leaves the world as it found it, whatever the dialer and the handshaker would
  do: neither is called.
\<close>

theorem DialTLSContext_split_failure:
  assumes "SplitHostPort address = Inl err"
  shows "DialTLSContext d ctx network address w = (Returns (Inl err), w) \<and>
    (\<exists>why. err = AddrError why address) \<and>
    (\<forall>failure operation e. err \<noteq> ErrWrapper failure operation e)"
proof -
  from SplitHostPort_error [OF assms] obtain why where "err = AddrError why address" ..
  with assms show ?thesis by (simp add: DialTLSContext_def)
qed

theorem DialTLSContext_split_failure_witness:
  "DialTLSContext panickingDialer background ''tcp'' ''example.com'' exampleWorld =
     (Returns (Inl (AddrError ''missing port in address'' ''example.com'')), exampleWorld)"
proof -
  have "SplitHostPort ''example.com'' =
      Inl (AddrError ''missing port in address'' ''example.com'')"
    by (simp add: SplitHostPort_def LastIndexByteString_def)
  from DialTLSContext_split_failure [OF this] show ?thesis by blast
qed

text \<open>
  C2. When the handshaker fails on the connection that the inner dialer returned,
  \<open>DialTLSContext\<close> returns that error and no connection, in the world the handshaker
  left with the connection closed on top. More generally, once the inner dialer has
  returned a connection, every error return leaves that connection closed. The legacy
  dialer does the same.
\<close>

theorem failed_handshake_closes_conn:
  "(SplitHostPort address = Inr (host, port) \<and>
    Dialer d ctx network address w0 = (Returns (Inr c), w1) \<longrightarrow>
      (tlsDialer_config (Config d) host port (configs w1) = (Returns cfg, hp) \<and>
       TLSHandshaker d ctx c cfg (w1\<lparr>configs := hp\<rparr>) = (Returns (Inl err), w3) \<longrightarrow>
         DialTLSContext d ctx network address w0 = (Returns (Inl err), conn_Close c w3) \<and>
         closed (net (conn_Close c w3)) c) \<and>
      (\<forall>e w'. DialTLSContext d ctx network address w0 = (Returns (Inl e), w') \<longrightarrow>
         closed (net w') c)) \<and>
   (SplitHostPort address = Inr (host, port) \<and>
    legacy_Dialer ld ctx network address w0 = (Returns (Inr c), w1) \<longrightarrow>
      (legacy_config (legacy_Config ld) host (configs w1) = (Returns cfg, hp) \<and>
       legacy_TLSHandshaker ld ctx c cfg (w1\<lparr>configs := hp\<rparr>) = (Returns (Inl err), w3) \<longrightarrow>
         legacy_DialTLSContext ld ctx network address w0 =
           (Returns (Inl err), conn_Close c w3) \<and>
         closed (net (conn_Close c w3)) c) \<and>
      (\<forall>e w'. legacy_DialTLSContext ld ctx network address w0 = (Returns (Inl e), w') \<longrightarrow>
         closed (net w') c))"
  by (auto simp: DialTLSContext_def legacy_DialTLSContext_def conn_Close_def
      split: prod.splits outcome.splits sum.splits)

theorem failed_handshake_closes_conn_witness:
  "(\<exists>w'. DialTLSContext failingDialer background ''tcp'' ''example.com:443'' exampleWorld =
            (Returns (Inl (OtherError ''handshake failed'')), w') \<and>
          closed (net w') 3) \<and>
   (\<exists>w'. legacy_DialTLSContext legacyFailingDialer background ''tcp'' ''example.com:443''
            exampleWorld =
            (Returns (Inl (OtherError ''handshake failed'')), w') \<and>
          closed (net w') 3)"
proof -
  have split: "SplitHostPort ''example.com:443'' = Inr (''example.com'', ''443'')"
    by (simp add: SplitHostPort_def LastIndexByteString_def IndexByteString_def)
  have dial: "Dialer failingDialer background ''tcp'' ''example.com:443'' exampleWorld =
      (Returns (Inr 3), exampleWorld)"
    by (simp add: failingDialer_def)
  have ldial: "legacy_Dialer legacyFailingDialer background ''tcp'' ''example.com:443''
      exampleWorld = (Returns (Inr 3), exampleWorld)"
    by (simp add: legacyFailingDialer_def)
  obtain cfg hp where cfg: "tlsDialer_config (Config failingDialer) ''example.com'' ''443''
      (configs exampleWorld) = (Returns cfg, hp)"
    by (simp add: failingDialer_def tlsDialer_config_nil)
  obtain lcfg lhp where lcfg: "legacy_config (legacy_Config legacyFailingDialer)
      ''example.com'' (configs exampleWorld) = (Returns lcfg, lhp)"
    by (simp add: legacyFailingDialer_def legacy_config_def new_def)
  have hs: "TLSHandshaker failingDialer background 3 cfg (exampleWorld\<lparr>configs := hp\<rparr>) =
      (Returns (Inl (OtherError ''handshake failed'')), exampleWorld\<lparr>configs := hp\<rparr>)"
    by (simp add: failingDialer_def)
  have lhs: "legacy_TLSHandshaker legacyFailingDialer background 3 lcfg
      (exampleWorld\<lparr>configs := lhp\<rparr>) =
      (Returns (Inl (OtherError ''handshake failed'')), exampleWorld\<lparr>configs := lhp\<rparr>)"
    by (simp add: legacyFailingDialer_def)
  from failed_handshake_closes_conn [of "''example.com:443''" "''example.com''" "''443''"
      failingDialer background "''tcp''" exampleWorld 3 exampleWorld cfg hp
      "OtherError ''handshake failed''" "exampleWorld\<lparr>configs := hp\<rparr>"
      legacyFailingDialer]
    split dial cfg hs
  have one: "\<exists>w'. DialTLSContext failingDialer background ''tcp'' ''example.com:443''
            exampleWorld = (Returns (Inl (OtherError ''handshake failed'')), w') \<and>
          closed (net w') 3"
    by blast
  from failed_handshake_closes_conn [of "''example.com:443''" "''example.com''" "''443''"
      failingDialer background "''tcp''" exampleWorld 3 exampleWorld lcfg lhp
      "OtherError ''handshake failed''" "exampleWorld\<lparr>configs := lhp\<rparr>"
      legacyFailingDialer]
    split ldial lcfg lhs
  have two: "\<exists>w'. legacy_DialTLSContext legacyFailingDialer background ''tcp''
            ''example.com:443'' exampleWorld =
            (Returns (Inl (OtherError ''handshake failed'')), w') \<and>
          closed (net w') 3"
    by blast
  from one two show ?thesis by blast
qed

section \<open>tlsHandshakerConfigurable.Handshake\<close>

lemma installRootCAs_given:
  assumes "deref hp cfg = Some config" and "RootCAs config \<noteq> None"
  shows "installRootCAs env h cfg hp = Returns (cfg, hp)"
  using assms by (auto simp: installRootCAs_def)

lemma deref_Some_valid:
  assumes "deref hp cfg = Some config"
  shows "\<exists>a. cfg = Some a \<and> a < length hp \<and> hp ! a = config"
  using assms by (auto simp: deref_def split: option.splits if_splits)

lemma installRootCAs_clone:
  assumes "deref hp cfg = Some config" and "RootCAs config = None"
  shows "installRootCAs env h cfg hp =
    Returns (Some (length hp),
      hp @ [config\<lparr>mutex := zeroRWMutex,
              RootCAs := DefaultCertPool (provider_Get env (provider h))\<rparr>])"
proof -
  from deref_Some_valid [OF assms(1)] obtain a
    where a: "cfg = Some a" "a < length hp" "hp ! a = config" by blast
  from a assms show ?thesis
    by (simp add: installRootCAs_def Clone_valid)
qed

lemma installRootCAs_keeps:
  assumes "installRootCAs env h cfg hp = Returns (cfg', hp')"
  shows "deref hp' cfg = deref hp cfg \<and> deref hp cfg \<noteq> None"
proof (cases "deref hp cfg")
  case None
  with assms show ?thesis by (simp add: installRootCAs_def)
next
  case (Some config)
  from deref_Some_valid [OF Some] obtain a
    where a: "cfg = Some a" "a < length hp" "hp ! a = config" by blast
  show ?thesis
  proof (cases "RootCAs config = None")
    case True
    from assms installRootCAs_clone [OF Some True, of env h] a Some show ?thesis
      by auto
  next
    case False
    from assms installRootCAs_given [OF Some False, of env h] Some show ?thesis
      by simp
  qed
qed

lemma handshakeTraced_returns:
  assumes "HandshakeContext env tlsconn ctx (net w0) = (Returns raw, n2)"
  shows "handshakeTraced env ctx c cfg tlsconn w0 =
    (Returns (case MaybeNewErrWrapper (ClassifyTLSHandshakeError env)
                     TLSHandshakeOperation raw of
                Some e \<Rightarrow> Inl e
              | None \<Rightarrow> Inr tlsconn),
     w0\<lparr>net := n2,
        traced := traced w0 @
          [OnTLSHandshakeStart (ContextTraceOrDefault ctx) (clock (net w0))
             (RemoteAddr env c) cfg,
           OnTLSHandshakeDone (ContextTraceOrDefault ctx) (clock (net w0))
             (RemoteAddr env c) cfg
             (tlsMaybeConnectionState env tlsconn
                (MaybeNewErrWrapper (ClassifyTLSHandshakeError env)
                   TLSHandshakeOperation raw) n2)
             (MaybeNewErrWrapper (ClassifyTLSHandshakeError env)
                TLSHandshakeOperation raw)
             (clock n2)]\<rparr>)"
  using assms
  by (simp add: handshakeTraced_def Let_def trace_TimeNow_def
      trace_OnTLSHandshakeStart_def trace_OnTLSHandshakeDone_def split: option.splits)

lemma handshakeTraced_configs:
  "configs (snd (handshakeTraced env ctx c cfg tlsconn w0)) = configs w0"
  by (simp add: handshakeTraced_def Let_def trace_OnTLSHandshakeStart_def
      trace_OnTLSHandshakeDone_def split: prod.splits outcome.splits option.splits)

lemma connectAndHandshake_configs:
  "configs (snd (connectAndHandshake env h ctx c cfg w0)) = configs w0"
  using handshakeTraced_configs
  by (simp add: connectAndHandshake_def split: prod.splits outcome.splits sum.splits)

lemma Handshake_unfold:
  assumes "installRootCAs env h cfg (configs w) = Returns (cfg', hp')"
  shows "Handshake env h ctx c cfg w =
    (case connectAndHandshake env h ctx c cfg'
            ((conn_SetDeadline c
               (time_Now w + (if Timeout h \<le> 0 then 10 * Second else Timeout h)) w)
             \<lparr>configs := hp'\<rparr>) of
       (r, w2) \<Rightarrow> (r, conn_SetDeadline c zeroTime w2))"
  using assms
  by (simp add: Handshake_def go_defer_def Let_def conn_SetDeadline_def)

lemma Handshake_configs:
  assumes "installRootCAs env h cfg (configs w) = Returns (cfg', hp')"
  shows "configs (snd (Handshake env h ctx c cfg w)) = hp'"
proof -
  let ?w1 = "(conn_SetDeadline c
               (time_Now w + (if Timeout h \<le> 0 then 10 * Second else Timeout h)) w)
             \<lparr>configs := hp'\<rparr>"
  obtain r w2 where run: "connectAndHandshake env h ctx c cfg' ?w1 = (r, w2)"
    by (cases "connectAndHandshake env h ctx c cfg' ?w1")
  have "configs (snd (connectAndHandshake env h ctx c cfg' ?w1)) = configs ?w1"
    by (rule connectAndHandshake_configs)
  with run have "configs w2 = hp'" by simp
  moreover have "Handshake env h ctx c cfg w = (r, conn_SetDeadline c zeroTime w2)"
    using Handshake_unfold [OF assms, of ctx c] run by simp
  ultimately show ?thesis by (simp add: conn_SetDeadline_def)
qed

lemma Handshake_clears_deadline:
  "deadline (net (snd (Handshake env h ctx c cfg w))) c = zeroTime"
  by (simp add: Handshake_def go_defer_def Let_def conn_SetDeadline_def split: prod.splits)

lemma Handshake_run:
  assumes "installRootCAs env h cfg (configs w) = Returns (cfg', hp')"
  shows "Handshake env h ctx c cfg w =
    (case newConn h c cfg' hp'
            ((net w)\<lparr>deadline := (deadline (net w))
               (c := clock (net w) + (if Timeout h \<le> 0 then 10 * Second else Timeout h))\<rparr>) of
       (Panics msg, n2) \<Rightarrow>
         (Panics msg, conn_SetDeadline c zeroTime (w\<lparr>configs := hp', net := n2\<rparr>))
     | (Returns (Inl err), n2) \<Rightarrow>
         (Returns (Inl err), conn_SetDeadline c zeroTime (w\<lparr>configs := hp', net := n2\<rparr>))
     | (Returns (Inr tlsconn), n2) \<Rightarrow>
         (case handshakeTraced env ctx c cfg' tlsconn (w\<lparr>configs := hp', net := n2\<rparr>) of
            (r, w3) \<Rightarrow> (r, conn_SetDeadline c zeroTime w3)))"
proof -
  let ?n1 = "(net w)\<lparr>deadline := (deadline (net w))
               (c := clock (net w) + (if Timeout h \<le> 0 then 10 * Second else Timeout h))\<rparr>"
  let ?w1 = "(conn_SetDeadline c
               (time_Now w + (if Timeout h \<le> 0 then 10 * Second else Timeout h)) w)
             \<lparr>configs := hp'\<rparr>"
  have w1: "?w1 = w\<lparr>configs := hp', net := ?n1\<rparr>"
    by (simp add: conn_SetDeadline_def time_Now_def split del: if_split)
  obtain r n2 where nc: "newConn h c cfg' hp' ?n1 = (r, n2)"
    by (cases "newConn h c cfg' hp' ?n1")
  have run: "connectAndHandshake env h ctx c cfg' (w\<lparr>configs := hp', net := ?n1\<rparr>) =
      (case r of
         Panics msg \<Rightarrow> (Panics msg, w\<lparr>configs := hp', net := n2\<rparr>)
       | Returns (Inl err) \<Rightarrow> (Returns (Inl err), w\<lparr>configs := hp', net := n2\<rparr>)
       | Returns (Inr tlsconn) \<Rightarrow>
           handshakeTraced env ctx c cfg' tlsconn (w\<lparr>configs := hp', net := n2\<rparr>))"
    using nc
    by (simp add: connectAndHandshake_def split: outcome.splits sum.splits split del: if_split)
  show ?thesis
    unfolding Handshake_unfold [OF assms] w1 run nc
    by (simp split: outcome.splits sum.splits prod.splits split del: if_split)
qed

lemma Handshake_returns:
  assumes "installRootCAs env h cfg (configs w) = Returns (cfg', hp')"
    and "newConn h c cfg' hp'
           ((net w)\<lparr>deadline := (deadline (net w))
              (c := clock (net w) + (if Timeout h \<le> 0 then 10 * Second else Timeout h))\<rparr>) =
         (Returns (Inr tlsconn), n2)"
    and "HandshakeContext env tlsconn ctx n2 = (Returns raw, n3)"
  shows "Handshake env h ctx c cfg w =
    (Returns (case MaybeNewErrWrapper (ClassifyTLSHandshakeError env)
                     TLSHandshakeOperation raw of
                Some e \<Rightarrow> Inl e
              | None \<Rightarrow> Inr tlsconn),
     w\<lparr>configs := hp',
        net := n3\<lparr>deadline := (deadline n3)(c := zeroTime)\<rparr>,
        traced := traced w @
          [OnTLSHandshakeStart (ContextTraceOrDefault ctx) (clock n2) (RemoteAddr env c) cfg',
           OnTLSHandshakeDone (ContextTraceOrDefault ctx) (clock n2) (RemoteAddr env c) cfg'
             (tlsMaybeConnectionState env tlsconn
                (MaybeNewErrWrapper (ClassifyTLSHandshakeError env)
                   TLSHandshakeOperation raw) n3)
             (MaybeNewErrWrapper (ClassifyTLSHandshakeError env)
                TLSHandshakeOperation raw)
             (clock n3)]\<rparr>)"
proof -
  have hs: "HandshakeContext env tlsconn ctx (net (w\<lparr>configs := hp', net := n2\<rparr>)) =
      (Returns raw, n3)"
    using assms(3) by simp
  show ?thesis
    by (simp add: Handshake_run [OF assms(1)] assms(2) handshakeTraced_returns [OF hs]
        conn_SetDeadline_def)
qed


lemma Debugf_frame [simp]:
  "net (Debugf format args w) = net w"
  "configs (Debugf format args w) = configs w"
  "traced (Debugf format args w) = traced w"
  "logged (Debugf format args w) = logged w @ [(format, args)]"
  by (simp_all add: Debugf_def)


section \<open>The handshaker on concrete inputs\<close>

lemma example_installRootCAs:
  assumes "DefaultUnderlyingNetwork env = \<lparr>DefaultCertPool = Some 1\<rparr>"
  shows "installRootCAs env stdlibHandshaker (Some 0) (configs exampleWorld) =
    Returns (Some 1, [emptyConfig, exampleClone])"
proof -
  have d: "deref (configs exampleWorld) (Some 0) = Some emptyConfig"
    by (simp add: exampleWorld_def deref_def)
  have r: "RootCAs emptyConfig = None" by simp
  show ?thesis
    using installRootCAs_clone [OF d r, of env stdlibHandshaker] assms
    by (simp add: exampleWorld_def exampleClone_def provider_Get_def stdlibHandshaker_def)
qed

lemma exampleClone_supported: "checkFields (reflectFields exampleClone) = None"
  unfolding checkFields_reflectFields
  by (simp add: unsupportedFieldNonzero_def exampleClone_def emptyConfig_def)

lemma example_newConn:
  "newConn stdlibHandshaker 3 (Some 1) [emptyConfig, exampleClone] n =
     (Returns (Inr exampleTLSConn), n)"
proof -
  have "deref [emptyConfig, exampleClone] (Some 1) = Some exampleClone"
    by (simp add: deref_def)
  moreover have "emptyConfig
      \<lparr>DynamicRecordSizingDisabled := DynamicRecordSizingDisabled exampleClone,
       InsecureSkipVerify := InsecureSkipVerify exampleClone,
       MaxVersion := MaxVersion exampleClone, MinVersion := MinVersion exampleClone,
       NextProtos := NextProtos exampleClone, RootCAs := RootCAs exampleClone,
       ServerName := ServerName exampleClone\<rparr> = emptyConfig\<lparr>RootCAs := Some 1\<rparr>"
    by (simp add: exampleClone_def emptyConfig_def)
  ultimately show ?thesis
    by (simp add: newConn_def stdlibHandshaker_def NewClientConnStdlib_def
        exampleClone_supported exampleTLSConn_def)
qed

lemma exampleDeadline:
  "(net exampleWorld)\<lparr>deadline := (deadline (net exampleWorld))
      (3 := clock (net exampleWorld) +
            (if Timeout stdlibHandshaker \<le> 0 then 10 * Second
             else Timeout stdlibHandshaker))\<rparr> = exampleNetDeadline"
  by (simp add: exampleWorld_def exampleNet_def exampleNetDeadline_def stdlibHandshaker_def
      Second_def)

section \<open>The deadline around the handshake\<close>

text \<open>
  C4. The timeout is the \<open>Timeout\<close> field, or ten seconds when that is zero or
  negative. Whatever the configuration, the factory and the TLS engine do, and whether
  the call returns a connection, returns an error or panics, the deadline of the
  connection is the zero time when \<open>Handshake\<close> is left. Where the configuration can
  be read, the factory and the handshake run in the world in which the deadline of the
  connection is the current time plus the timeout, and the deferred reset follows them.
\<close>

theorem Handshake_sets_and_clears_deadline:
  "deadline (net (snd (Handshake env h ctx c cfg w))) c = zeroTime \<and>
   10 * Second = 10000000000 \<and>
   (installRootCAs env h cfg (configs w) = Returns (cfg', hp') \<longrightarrow>
      Handshake env h ctx c cfg w =
        (case connectAndHandshake env h ctx c cfg'
                (w\<lparr>configs := hp',
                   net := (net w)\<lparr>deadline := (deadline (net w))
                     (c := clock (net w) +
                           (if Timeout h \<le> 0 then 10 * Second else Timeout h))\<rparr>\<rparr>) of
           (r, w2) \<Rightarrow>
             (r, w2\<lparr>net := (net w2)\<lparr>deadline := (deadline (net w2))(c := zeroTime)\<rparr>\<rparr>)))"
proof -
  have "installRootCAs env h cfg (configs w) = Returns (cfg', hp') \<longrightarrow>
      Handshake env h ctx c cfg w =
        (case connectAndHandshake env h ctx c cfg'
                (w\<lparr>configs := hp',
                   net := (net w)\<lparr>deadline := (deadline (net w))
                     (c := clock (net w) +
                           (if Timeout h \<le> 0 then 10 * Second else Timeout h))\<rparr>\<rparr>) of
           (r, w2) \<Rightarrow>
             (r, w2\<lparr>net := (net w2)\<lparr>deadline := (deadline (net w2))(c := zeroTime)\<rparr>\<rparr>))"
  proof
    assume a: "installRootCAs env h cfg (configs w) = Returns (cfg', hp')"
    have w1: "(conn_SetDeadline c
               (time_Now w + (if Timeout h \<le> 0 then 10 * Second else Timeout h)) w)
             \<lparr>configs := hp'\<rparr> =
          w\<lparr>configs := hp',
            net := (net w)\<lparr>deadline := (deadline (net w))
              (c := clock (net w) +
                    (if Timeout h \<le> 0 then 10 * Second else Timeout h))\<rparr>\<rparr>"
      by (simp add: conn_SetDeadline_def time_Now_def split del: if_split)
    show "Handshake env h ctx c cfg w =
        (case connectAndHandshake env h ctx c cfg'
                (w\<lparr>configs := hp',
                   net := (net w)\<lparr>deadline := (deadline (net w))
                     (c := clock (net w) +
                           (if Timeout h \<le> 0 then 10 * Second else Timeout h))\<rparr>\<rparr>) of
           (r, w2) \<Rightarrow>
             (r, w2\<lparr>net := (net w2)\<lparr>deadline := (deadline (net w2))(c := zeroTime)\<rparr>\<rparr>))"
      unfolding Handshake_unfold [OF a] w1
      by (simp add: conn_SetDeadline_def split: prod.splits split del: if_split)
  qed
  then show ?thesis
    using Handshake_clears_deadline by (simp add: Second_def split del: if_split)
qed

theorem Handshake_sets_and_clears_deadline_witness:
  "fst (Handshake panicEnv stdlibHandshaker background 3 (Some 0) exampleWorld) =
     Panics ''boom'' \<and>
   deadline (net (snd (Handshake panicEnv stdlibHandshaker background 3 (Some 0)
     exampleWorld))) 3 = zeroTime"
proof -
  have inst: "installRootCAs panicEnv stdlibHandshaker (Some 0) (configs exampleWorld) =
      Returns (Some 1, [emptyConfig, exampleClone])"
    by (rule example_installRootCAs) (simp add: panicEnv_def)
  have run: "fst (connectAndHandshake panicEnv stdlibHandshaker background 3 (Some 1)
      (exampleWorld\<lparr>configs := [emptyConfig, exampleClone], net := exampleNetDeadline\<rparr>)) =
      Panics ''boom''"
    by (simp add: connectAndHandshake_def example_newConn handshakeTraced_def Let_def
        panicEnv_def del: One_nat_def)
  from Handshake_sets_and_clears_deadline [of panicEnv stdlibHandshaker background 3
      "Some 0" exampleWorld "Some 1" "[emptyConfig, exampleClone]"] inst
  have cleared: "deadline (net (snd (Handshake panicEnv stdlibHandshaker background 3
      (Some 0) exampleWorld))) 3 = zeroTime"
    and eq: "Handshake panicEnv stdlibHandshaker background 3 (Some 0) exampleWorld =
        (case connectAndHandshake panicEnv stdlibHandshaker background 3 (Some 1)
                (exampleWorld\<lparr>configs := [emptyConfig, exampleClone],
                   net := (net exampleWorld)\<lparr>deadline := (deadline (net exampleWorld))
                     (3 := clock (net exampleWorld) +
                           (if Timeout stdlibHandshaker \<le> 0 then 10 * Second
                            else Timeout stdlibHandshaker))\<rparr>\<rparr>) of
           (r, w2) \<Rightarrow>
             (r, w2\<lparr>net := (net w2)\<lparr>deadline := (deadline (net w2))(3 := zeroTime)\<rparr>\<rparr>))"
    by blast+
  from eq run have "fst (Handshake panicEnv stdlibHandshaker background 3 (Some 0)
      exampleWorld) = Panics ''boom''"
    unfolding exampleDeadline by (simp split: prod.splits)
  with cleared show ?thesis by blast
qed

section \<open>The trusted roots go on a clone\<close>

text \<open>
  C5. When the configuration has no \<open>RootCAs\<close>, the handshaker allocates a clone,
  puts the default pool of the provider on the clone, and hands the clone (a new
  object, not the caller's) to the factory and to the handshake; when \<open>Handshake\<close> is
  left the caller's object reads as before, its \<open>RootCAs\<close> still nil. When
  \<open>RootCAs\<close> is set, the factory gets the caller's object and nothing is allocated.
\<close>

theorem Handshake_RootCAs_on_clone:
  assumes "deref (configs w) cfg = Some config"
  shows
    "(RootCAs config = None \<longrightarrow>
       (let pool = DefaultCertPool (provider_Get env (provider h));
            clone = config\<lparr>mutex := zeroRWMutex, RootCAs := pool\<rparr>;
            cfg' = Some (length (configs w));
            hp' = configs w @ [clone];
            n1 = (net w)\<lparr>deadline := (deadline (net w))
                   (c := clock (net w) + (if Timeout h \<le> 0 then 10 * Second else Timeout h))\<rparr>
        in cfg' \<noteq> cfg \<and> deref hp' cfg' = Some clone \<and> RootCAs clone = pool \<and>
           Handshake env h ctx c cfg w =
             (case newConn h c cfg' hp' n1 of
                (Panics msg, n2) \<Rightarrow>
                  (Panics msg, conn_SetDeadline c zeroTime (w\<lparr>configs := hp', net := n2\<rparr>))
              | (Returns (Inl err), n2) \<Rightarrow>
                  (Returns (Inl err),
                   conn_SetDeadline c zeroTime (w\<lparr>configs := hp', net := n2\<rparr>))
              | (Returns (Inr tlsconn), n2) \<Rightarrow>
                  (case handshakeTraced env ctx c cfg' tlsconn
                          (w\<lparr>configs := hp', net := n2\<rparr>) of
                     (r, w3) \<Rightarrow> (r, conn_SetDeadline c zeroTime w3))) \<and>
           configs (snd (Handshake env h ctx c cfg w)) = hp' \<and>
           deref (configs (snd (Handshake env h ctx c cfg w))) cfg = Some config)) \<and>
     (RootCAs config \<noteq> None \<longrightarrow>
       (let n1 = (net w)\<lparr>deadline := (deadline (net w))
                   (c := clock (net w) + (if Timeout h \<le> 0 then 10 * Second else Timeout h))\<rparr>
        in Handshake env h ctx c cfg w =
             (case newConn h c cfg (configs w) n1 of
                (Panics msg, n2) \<Rightarrow> (Panics msg, conn_SetDeadline c zeroTime (w\<lparr>net := n2\<rparr>))
              | (Returns (Inl err), n2) \<Rightarrow>
                  (Returns (Inl err), conn_SetDeadline c zeroTime (w\<lparr>net := n2\<rparr>))
              | (Returns (Inr tlsconn), n2) \<Rightarrow>
                  (case handshakeTraced env ctx c cfg tlsconn (w\<lparr>net := n2\<rparr>) of
                     (r, w3) \<Rightarrow> (r, conn_SetDeadline c zeroTime w3))) \<and>
           configs (snd (Handshake env h ctx c cfg w)) = configs w))"
proof (cases "RootCAs config = None")
  case True
  let ?clone = "config\<lparr>mutex := zeroRWMutex,
                  RootCAs := DefaultCertPool (provider_Get env (provider h))\<rparr>"
  from deref_Some_valid [OF assms] obtain a
    where a: "cfg = Some a" "a < length (configs w)" "configs w ! a = config" by blast
  have inst: "installRootCAs env h cfg (configs w) =
      Returns (Some (length (configs w)), configs w @ [?clone])"
    using assms True by (rule installRootCAs_clone)
  have fresh: "Some (length (configs w)) \<noteq> cfg"
    using a by auto
  have kept: "deref (configs w @ [?clone]) cfg = Some config"
    using a by simp
  show ?thesis
    using True fresh kept Handshake_run [OF inst, of ctx c] Handshake_configs [OF inst, of ctx c]
    by (simp add: Let_def split del: if_split)
next
  case False
  have inst: "installRootCAs env h cfg (configs w) = Returns (cfg, configs w)"
    using assms False by (rule installRootCAs_given)
  have same: "\<And>n2. w\<lparr>configs := configs w, net := n2\<rparr> = w\<lparr>net := n2\<rparr>"
    by simp
  show ?thesis
    using False Handshake_run [OF inst, of ctx c] Handshake_configs [OF inst, of ctx c]
    by (simp add: Let_def same split del: if_split
        cong: prod.case_cong outcome.case_cong sum.case_cong)
qed

theorem Handshake_RootCAs_on_clone_witness:
  "configs (snd (Handshake resetEnv stdlibHandshaker background 3 (Some 0) exampleWorld)) =
     [emptyConfig, emptyConfig\<lparr>mutex := zeroRWMutex, RootCAs := Some 1\<rparr>] \<and>
   deref (configs (snd (Handshake resetEnv stdlibHandshaker background 3 (Some 0)
     exampleWorld))) (Some 0) = Some emptyConfig \<and>
   RootCAs emptyConfig = None"
proof -
  have d: "deref (configs exampleWorld) (Some 0) = Some emptyConfig"
    by (simp add: exampleWorld_def deref_def)
  have pool: "DefaultCertPool (provider_Get resetEnv (provider stdlibHandshaker)) = Some 1"
    by (simp add: provider_Get_def stdlibHandshaker_def resetEnv_def)
  have cfgs: "configs exampleWorld = [emptyConfig]"
    by (simp add: exampleWorld_def)
  have r: "RootCAs emptyConfig = None" by simp
  from Handshake_RootCAs_on_clone [OF d, of resetEnv stdlibHandshaker 3 background,
      unfolded Let_def] r
  have "configs (snd (Handshake resetEnv stdlibHandshaker background 3 (Some 0)
          exampleWorld)) =
        configs exampleWorld @
          [emptyConfig\<lparr>mutex := zeroRWMutex,
             RootCAs := DefaultCertPool (provider_Get resetEnv (provider stdlibHandshaker))\<rparr>]"
    and "deref (configs (snd (Handshake resetEnv stdlibHandshaker background 3 (Some 0)
          exampleWorld))) (Some 0) = Some emptyConfig"
    by blast+
  then show ?thesis
    by (simp add: pool cfgs)
qed

section \<open>Trace events of the handshake\<close>









section \<open>The classified error through the decorators\<close>

text \<open>
  C8. Through the logging decorator around \<open>tlsHandshakerConfigurable\<close>: when the
  factory returns a connection and the TLS engine returns the raw error, the error
  is wrapped once, by \<open>MaybeNewErrWrapper\<close> inside \<open>Handshake\<close>; that one value is the
  error of the done event of the trace, the error argument of the line the decorator
  logs, and the error returned to the caller. When the engine returns nil, no error
  is traced, logged or returned.
\<close>

theorem classified_error_is_the_one_observed:
  assumes "installRootCAs env h cfg (configs w) = Returns (cfg', hp')"
    and "newConn h c cfg' hp'
           ((net w)\<lparr>deadline := (deadline (net w))
              (c := clock (net w) + (if Timeout h \<le> 0 then 10 * Second else Timeout h))\<rparr>) =
         (Returns (Inr tlsconn), n2)"
    and "HandshakeContext env tlsconn ctx n2 = (Returns raw, n3)"
  shows "\<exists>config.
      deref (configs w) cfg = Some config \<and>
      traced (snd (tlsHandshakerLogger_Handshake env
                     (newTLSHandshakerLogger (Handshake env h)) ctx c cfg w)) =
        traced w @
          [OnTLSHandshakeStart (ContextTraceOrDefault ctx) (clock n2) (RemoteAddr env c) cfg',
           OnTLSHandshakeDone (ContextTraceOrDefault ctx) (clock n2) (RemoteAddr env c) cfg'
             (tlsMaybeConnectionState env tlsconn
                (MaybeNewErrWrapper (ClassifyTLSHandshakeError env)
                   TLSHandshakeOperation raw) n3)
             (MaybeNewErrWrapper (ClassifyTLSHandshakeError env) TLSHandshakeOperation raw)
             (clock n3)] \<and>
      (\<forall>e0. raw = Some e0 \<longrightarrow>
         MaybeNewErrWrapper (ClassifyTLSHandshakeError env) TLSHandshakeOperation raw =
           Some (ErrWrapper (ClassifyTLSHandshakeError env (rawCause e0))
                   TLSHandshakeOperation e0) \<and>
         fst (tlsHandshakerLogger_Handshake env
                (newTLSHandshakerLogger (Handshake env h)) ctx c cfg w) =
           Returns (Inl (ErrWrapper (ClassifyTLSHandshakeError env (rawCause e0))
                           TLSHandshakeOperation e0)) \<and>
         logged (snd (tlsHandshakerLogger_Handshake env
                        (newTLSHandshakerLogger (Handshake env h)) ctx c cfg w)) =
           logged w @
             [(''tls_handshake {sni=%s next=%+v}...'',
               [ArgString (ServerName config), ArgStrings (NextProtos config)]),
              (''tls_handshake {sni=%s next=%+v}... %s in %s'',
               [ArgString (ServerName config), ArgStrings (NextProtos config),
                ArgError (ErrWrapper (ClassifyTLSHandshakeError env (rawCause e0))
                            TLSHandshakeOperation e0),
                ArgDuration (clock n3 - clock (net w))])]) \<and>
      (raw = None \<longrightarrow>
         fst (tlsHandshakerLogger_Handshake env
                (newTLSHandshakerLogger (Handshake env h)) ctx c cfg w) =
           Returns (Inr tlsconn) \<and>
         logged (snd (tlsHandshakerLogger_Handshake env
                        (newTLSHandshakerLogger (Handshake env h)) ctx c cfg w)) =
           logged w @
             [(''tls_handshake {sni=%s next=%+v}...'',
               [ArgString (ServerName config), ArgStrings (NextProtos config)]),
              (''tls_handshake {sni=%s next=%+v}... ok in %s {next=%s cipher=%s v=%s}'',
               [ArgString (ServerName config), ArgStrings (NextProtos config),
                ArgDuration (clock n3 - clock (net w)),
                ArgString (NegotiatedProtocol (ConnectionState env tlsconn
                  (n3\<lparr>deadline := (deadline n3)(c := zeroTime)\<rparr>))),
                ArgString (TLSCipherSuiteString (CipherSuite (ConnectionState env tlsconn
                  (n3\<lparr>deadline := (deadline n3)(c := zeroTime)\<rparr>)))),
                ArgString (TLSVersionString (Version (ConnectionState env tlsconn
                  (n3\<lparr>deadline := (deadline n3)(c := zeroTime)\<rparr>))))])])"
proof -
  from installRootCAs_keeps [OF assms(1)] obtain config
    where config: "deref (configs w) cfg = Some config" "deref hp' cfg = Some config"
    by auto
  let ?w1 = "Debugf ''tls_handshake {sni=%s next=%+v}...''
               [ArgString (ServerName config), ArgStrings (NextProtos config)] w"
  let ?err = "MaybeNewErrWrapper (ClassifyTLSHandshakeError env) TLSHandshakeOperation raw"
  have a1: "installRootCAs env h cfg (configs ?w1) = Returns (cfg', hp')"
    using assms(1) by simp
  have a2: "newConn h c cfg' hp'
           ((net ?w1)\<lparr>deadline := (deadline (net ?w1))
              (c := clock (net ?w1) + (if Timeout h \<le> 0 then 10 * Second else Timeout h))\<rparr>) =
         (Returns (Inr tlsconn), n2)"
    using assms(2) by simp
  note inner = Handshake_returns [OF a1 a2 assms(3)]
  show ?thesis
  proof (cases raw)
    case None
    from None show ?thesis
      using config inner
      by (simp add: tlsHandshakerLogger_Handshake_def newTLSHandshakerLogger_def
          MaybeNewErrWrapper_def MaybeTLSConnectionState_def Let_def time_Now_def)
  next
    case (Some e0)
    from Some show ?thesis
      using config inner
      by (simp add: tlsHandshakerLogger_Handshake_def newTLSHandshakerLogger_def
          MaybeNewErrWrapper_def MaybeTLSConnectionState_def Let_def time_Now_def)
  qed
qed

theorem classified_error_is_the_one_observed_witness:
  "fst (tlsHandshakerLogger_Handshake resetEnv (NewTLSHandshakerStdlib resetEnv None)
          background 3 (Some 0) exampleWorld) =
     Returns (Inl (ErrWrapper ''connection_reset'' ''tls_handshake''
                     (OtherError ''connection reset by peer''))) \<and>
   traced (snd (tlsHandshakerLogger_Handshake resetEnv (NewTLSHandshakerStdlib resetEnv None)
          background 3 (Some 0) exampleWorld)) =
     [OnTLSHandshakeStart DefaultTrace 1000 ''93.184.216.34:443'' (Some 1),
      OnTLSHandshakeDone DefaultTrace 1000 ''93.184.216.34:443'' (Some 1)
        emptyConnectionState
        (Some (ErrWrapper ''connection_reset'' ''tls_handshake''
                 (OtherError ''connection reset by peer'')))
        1005] \<and>
   logged (snd (tlsHandshakerLogger_Handshake resetEnv (NewTLSHandshakerStdlib resetEnv None)
          background 3 (Some 0) exampleWorld)) =
     [(''tls_handshake {sni=%s next=%+v}...'', [ArgString '''', ArgStrings None]),
      (''tls_handshake {sni=%s next=%+v}... %s in %s'',
       [ArgString '''', ArgStrings None,
        ArgError (ErrWrapper ''connection_reset'' ''tls_handshake''
                    (OtherError ''connection reset by peer'')),
        ArgDuration 5])]"
proof -
  have inst: "installRootCAs resetEnv stdlibHandshaker (Some 0) (configs exampleWorld) =
      Returns (Some 1, [emptyConfig, exampleClone])"
    by (rule example_installRootCAs) (simp add: resetEnv_def)
  have fac: "newConn stdlibHandshaker 3 (Some 1) [emptyConfig, exampleClone]
      ((net exampleWorld)\<lparr>deadline := (deadline (net exampleWorld))
         (3 := clock (net exampleWorld) +
               (if Timeout stdlibHandshaker \<le> 0 then 10 * Second
                else Timeout stdlibHandshaker))\<rparr>) =
      (Returns (Inr exampleTLSConn), exampleNetDeadline)"
    unfolding exampleDeadline by (rule example_newConn)
  have hs: "HandshakeContext resetEnv exampleTLSConn background exampleNetDeadline =
      (Returns (Some (OtherError ''connection reset by peer'')),
       exampleNetDeadline\<lparr>clock := 1005\<rparr>)"
    by (simp add: resetEnv_def exampleNetDeadline_def exampleNet_def)
  have d: "deref (configs exampleWorld) (Some 0) = Some emptyConfig"
    by (simp add: exampleWorld_def deref_def)
  have env: "ClassifyTLSHandshakeError resetEnv = (\<lambda>e. ''connection_reset'')"
      "RemoteAddr resetEnv 3 = ''93.184.216.34:443''"
    by (simp_all add: resetEnv_def)
  have w: "traced exampleWorld = []" "logged exampleWorld = []"
      "clock (net exampleWorld) = 1000" "clock exampleNetDeadline = 1000"
      "clock (exampleNetDeadline\<lparr>clock := 1005\<rparr>) = 1005"
    by (simp_all add: exampleWorld_def exampleNetDeadline_def exampleNet_def)
  have raw: "MaybeNewErrWrapper (ClassifyTLSHandshakeError resetEnv) TLSHandshakeOperation
        (Some (OtherError ''connection reset by peer'')) =
      Some (ErrWrapper ''connection_reset'' ''tls_handshake''
              (OtherError ''connection reset by peer''))"
    by (simp add: MaybeNewErrWrapper_def env TLSHandshakeOperation_def)
  from classified_error_is_the_one_observed [OF inst fac hs] obtain config
    where c: "deref (configs exampleWorld) (Some 0) = Some config"
      and t: "traced (snd (tlsHandshakerLogger_Handshake resetEnv
                     (newTLSHandshakerLogger (Handshake resetEnv stdlibHandshaker))
                     background 3 (Some 0) exampleWorld)) =
        traced exampleWorld @
          [OnTLSHandshakeStart (ContextTraceOrDefault background) (clock exampleNetDeadline)
             (RemoteAddr resetEnv 3) (Some 1),
           OnTLSHandshakeDone (ContextTraceOrDefault background) (clock exampleNetDeadline)
             (RemoteAddr resetEnv 3) (Some 1)
             (tlsMaybeConnectionState resetEnv exampleTLSConn
                (MaybeNewErrWrapper (ClassifyTLSHandshakeError resetEnv)
                   TLSHandshakeOperation (Some (OtherError ''connection reset by peer'')))
                (exampleNetDeadline\<lparr>clock := 1005\<rparr>))
             (MaybeNewErrWrapper (ClassifyTLSHandshakeError resetEnv) TLSHandshakeOperation
                (Some (OtherError ''connection reset by peer'')))
             (clock (exampleNetDeadline\<lparr>clock := 1005\<rparr>))]"
      and e: "\<forall>e0. Some (OtherError ''connection reset by peer'') = Some e0 \<longrightarrow>
         MaybeNewErrWrapper (ClassifyTLSHandshakeError resetEnv) TLSHandshakeOperation
             (Some (OtherError ''connection reset by peer'')) =
           Some (ErrWrapper (ClassifyTLSHandshakeError resetEnv (rawCause e0))
                   TLSHandshakeOperation e0) \<and>
         fst (tlsHandshakerLogger_Handshake resetEnv
                (newTLSHandshakerLogger (Handshake resetEnv stdlibHandshaker))
                background 3 (Some 0) exampleWorld) =
           Returns (Inl (ErrWrapper (ClassifyTLSHandshakeError resetEnv (rawCause e0))
                           TLSHandshakeOperation e0)) \<and>
         logged (snd (tlsHandshakerLogger_Handshake resetEnv
                        (newTLSHandshakerLogger (Handshake resetEnv stdlibHandshaker))
                        background 3 (Some 0) exampleWorld)) =
           logged exampleWorld @
             [(''tls_handshake {sni=%s next=%+v}...'',
               [ArgString (ServerName config), ArgStrings (NextProtos config)]),
              (''tls_handshake {sni=%s next=%+v}... %s in %s'',
               [ArgString (ServerName config), ArgStrings (NextProtos config),
                ArgError (ErrWrapper (ClassifyTLSHandshakeError resetEnv (rawCause e0))
                            TLSHandshakeOperation e0),
                ArgDuration (clock (exampleNetDeadline\<lparr>clock := 1005\<rparr>) -
                             clock (net exampleWorld))])]"
    by blast
  from c d have config: "config = emptyConfig" by simp
  from e have e': "fst (tlsHandshakerLogger_Handshake resetEnv
                (newTLSHandshakerLogger (Handshake resetEnv stdlibHandshaker))
                background 3 (Some 0) exampleWorld) =
           Returns (Inl (ErrWrapper ''connection_reset'' ''tls_handshake''
                           (OtherError ''connection reset by peer'')))"
      "logged (snd (tlsHandshakerLogger_Handshake resetEnv
                        (newTLSHandshakerLogger (Handshake resetEnv stdlibHandshaker))
                        background 3 (Some 0) exampleWorld)) =
           [(''tls_handshake {sni=%s next=%+v}...'', [ArgString '''', ArgStrings None]),
            (''tls_handshake {sni=%s next=%+v}... %s in %s'',
             [ArgString '''', ArgStrings None,
              ArgError (ErrWrapper ''connection_reset'' ''tls_handshake''
                          (OtherError ''connection reset by peer'')),
              ArgDuration 5])]"
    by (simp_all add: config env w TLSHandshakeOperation_def)
  from t have t': "traced (snd (tlsHandshakerLogger_Handshake resetEnv
                     (newTLSHandshakerLogger (Handshake resetEnv stdlibHandshaker))
                     background 3 (Some 0) exampleWorld)) =
     [OnTLSHandshakeStart DefaultTrace 1000 ''93.184.216.34:443'' (Some 1),
      OnTLSHandshakeDone DefaultTrace 1000 ''93.184.216.34:443'' (Some 1)
        emptyConnectionState
        (Some (ErrWrapper ''connection_reset'' ''tls_handshake''
                 (OtherError ''connection reset by peer'')))
        1005]"
    unfolding raw
    by (simp add: env w ContextTraceOrDefault_def background_def tlsMaybeConnectionState_def)
  have "NewTLSHandshakerStdlib resetEnv None =
      newTLSHandshakerLogger (Handshake resetEnv stdlibHandshaker)"
    by (simp add: NewTLSHandshakerStdlib_def stdlibHandshaker_def)
  with e' t' show ?thesis by simp
qed

end
